(* ===== verification/Prelude.thy ===== *)
theory Prelude
  imports Main "HOL-Library.AList"
begin

text \<open>
  Shared vocabulary of the development: Python's exceptions as a sum type and
  their propagation (\<open>bind_py\<close>), the iteration order of a Python \<open>set\<close> of
  labels, numpy's boolean-mask selection and masked assignment on label vectors,
  and the generic lemmas on lists and counts that the component theories use.
\<close>

named_theorems py_simps "characteristic equations of the Python/numpy conventions"

section \<open>Exceptions\<close>

text \<open>
  The exceptions the modelled functions can raise. \<open>IndexError\<close> is numpy's
  boolean-mask length mismatch and the \<open>[0]\<close> of an empty \<open>scipy.stats.mode\<close>
  result; \<open>TypeError\<close> is subscripting \<open>None\<close>; \<open>AttributeError\<close> is calling
  \<open>fit\<close> on \<open>None\<close>; \<open>ValueError\<close> is scikit-learn's input validation;
  \<open>KeyError\<close> is a missing dict key.
\<close>

datatype py_error = IndexError | KeyError | TypeError | ValueError | AttributeError

type_synonym 'a py_result = "py_error + 'a"

definition bind_py :: "'a py_result \<Rightarrow> ('a \<Rightarrow> 'b py_result) \<Rightarrow> 'b py_result" where
  "bind_py r f = (case r of Inl e \<Rightarrow> Inl e | Inr x \<Rightarrow> f x)"

lemma bind_py_Inl [simp, py_simps]: "bind_py (Inl e) f = Inl e"
  by (simp add: bind_py_def)

lemma bind_py_Inr [simp, py_simps]: "bind_py (Inr x) f = f x"
  by (simp add: bind_py_def)

lemma bind_py_eq_Inr:
  "bind_py r f = Inr y \<longleftrightarrow> (\<exists>x. r = Inr x \<and> f x = Inr y)"
  by (cases r) simp_all

section \<open>Label vectors\<close>

type_synonym 'a labels = "'a list"

text \<open>
  \<open>set(y)\<close> iterated by a \<open>for\<close> loop. For labels that are small non-negative
  Python ints (the cluster ids and class codes this module receives) CPython's
  hash of an int is the int itself and the set's table is larger than every
  element, so the iteration visits the distinct values in ascending order;
  \<open>np.unique\<close> also returns the sorted distinct values.
\<close>

definition py_set_iter :: "'a::linorder labels \<Rightarrow> 'a list" where
  "py_set_iter xs = sort (remdups xs)"

lemma py_set_iter_set [simp]: "set (py_set_iter xs) = set xs"
  by (simp add: py_set_iter_def)

lemma py_set_iter_distinct [simp]: "distinct (py_set_iter xs)"
  by (simp add: py_set_iter_def)

lemma py_set_iter_sorted [simp]: "sorted (py_set_iter xs)"
  by (simp add: py_set_iter_def)

lemma length_py_set_iter: "length (py_set_iter xs) = card (set xs)"
  by (simp add: py_set_iter_def length_remdups_card_conv)

text \<open>\<open>y_pred[y_true == c]\<close>: the entries of \<open>yp\<close> where \<open>yt\<close> holds \<open>c\<close>.\<close>

definition mask_vals :: "'a labels \<Rightarrow> 'b list \<Rightarrow> 'a \<Rightarrow> 'b list" where
  "mask_vals yt yp c = map snd (filter (\<lambda>(t, p). t = c) (zip yt yp))"

text \<open>\<open>r[yp == v] = c\<close>: every entry of \<open>r\<close> whose position holds \<open>v\<close> in \<open>yp\<close> becomes \<open>c\<close>.\<close>

definition mask_assign :: "'a labels \<Rightarrow> 'a labels \<Rightarrow> 'a \<Rightarrow> 'a \<Rightarrow> 'a labels" where
  "mask_assign r yp v c = map2 (\<lambda>x p. if p = v then c else x) r yp"

lemma set_mask_vals: "set (mask_vals yt yp c) = {p. (c, p) \<in> set (zip yt yp)}"
  by (force simp: mask_vals_def)

lemma mask_vals_map:
  "mask_vals yt (map f yt) c = replicate (count_list yt c) (f c)"
  by (induction yt) (auto simp: mask_vals_def)

lemma length_mask_vals:
  "length yt = length yp \<Longrightarrow> length (mask_vals yt yp c) = count_list yt c"
  by (induction yt yp rule: list_induct2) (simp_all add: mask_vals_def)

lemma length_mask_assign [simp]:
  "length (mask_assign r yp v c) = min (length r) (length yp)"
  by (simp add: mask_assign_def)

section \<open>Generic lemmas on lists\<close>

lemma map2_map2_same:
  "length r = length ys \<Longrightarrow>
   map2 f (map2 g r ys) ys = map2 (\<lambda>x y. f (g x y) y) r ys"
  by (induction r ys rule: list_induct2) simp_all

lemma map2_fst: "length r = length ys \<Longrightarrow> map2 (\<lambda>x y. x) r ys = r"
  by (induction r ys rule: list_induct2) simp_all

lemma map2_diag: "map2 f xs xs = map (\<lambda>x. f x x) xs"
  by (induction xs) simp_all

lemma hd_filter_sorted_Min:
  assumes "sorted xs" and "\<exists>x\<in>set xs. P x"
  shows "hd (filter P xs) = Min {x \<in> set xs. P x}"
  using assms
proof (induction xs)
  case Nil
  then show ?case by simp
next
  case (Cons a xs)
  show ?case
  proof (cases "P a")
    case True
    have "Min {x \<in> set (a # xs). P x} = a"
      using Cons.prems(1) True by (intro Min_eqI) auto
    with True show ?thesis by simp
  next
    case False
    then have "{x \<in> set (a # xs). P x} = {x \<in> set xs. P x}" by auto
    with False Cons show ?thesis by simp
  qed
qed

lemma remdups_replicate_Suc: "remdups (replicate (Suc k) x) = [x]"
  by (induction k) auto

lemma find_SomeD: "List.find P xs = Some x \<Longrightarrow> x \<in> set xs \<and> P x"
  by (induction xs) (auto split: if_splits)

text \<open>A Python dict assignment to a new key appends the key at the end.\<close>

lemma update_new_key:
  "k \<notin> set (map fst al) \<Longrightarrow> AList.update k v al = al @ [(k, v)]"
  by (induction al) auto

lemma map_of_snoc_new [simp]:
  "k \<notin> set (map fst al) \<Longrightarrow> map_of (al @ [(k, v)]) k = Some v"
  by (induction al) auto

lemma find_keys_swap:
  "distinct (map fst m) \<Longrightarrow>
   List.find (\<lambda>c. map_of m c = Some p) (map fst m) = map_of (map prod.swap m) p"
proof (induction m)
  case Nil
  then show ?case by simp
next
  case (Cons kv m)
  obtain k v where kv: "kv = (k, v)" by (cases kv)
  have "List.find (\<lambda>c. map_of ((k, v) # m) c = Some p) (map fst m)
      = List.find (\<lambda>c. map_of m c = Some p) (map fst m)"
    using Cons.prems kv by (intro find_cong) auto
  with Cons kv show ?case by simp
qed

text \<open>A maximum of counts equals their sum exactly when at most one count is positive.\<close>

lemma Max_eq_sum_iff:
  fixes g :: "'a \<Rightarrow> nat"
  assumes "finite A" and "A \<noteq> {}"
  shows "Max (g ` A) = sum g A \<longleftrightarrow> (\<forall>x\<in>A. \<forall>y\<in>A. 0 < g x \<longrightarrow> 0 < g y \<longrightarrow> x = y)"
proof
  assume eq: "Max (g ` A) = sum g A"
  show "\<forall>x\<in>A. \<forall>y\<in>A. 0 < g x \<longrightarrow> 0 < g y \<longrightarrow> x = y"
  proof (intro ballI impI, rule ccontr)
    fix x y assume xy: "x \<in> A" "y \<in> A" "0 < g x" "0 < g y" "x \<noteq> y"
    have "Max (g ` A) \<in> g ` A" using assms by (intro Max_in) auto
    then obtain x0 where x0: "x0 \<in> A" "g x0 = Max (g ` A)" by (metis imageE)
    obtain d where d: "d \<in> A" "d \<noteq> x0" "0 < g d"
      using xy by (cases "x = x0") auto
    have "g x0 + g d = sum g {x0, d}" using d(2) by simp
    also have "\<dots> \<le> sum g A" using x0(1) d(1) assms(1) by (intro sum_mono2) auto
    finally show False using eq x0(2) d(3) by simp
  qed
next
  assume uniq: "\<forall>x\<in>A. \<forall>y\<in>A. 0 < g x \<longrightarrow> 0 < g y \<longrightarrow> x = y"
  show "Max (g ` A) = sum g A"
  proof (cases "\<exists>x1\<in>A. 0 < g x1")
    case True
    then obtain x1 where x1: "x1 \<in> A" "0 < g x1" by blast
    have zero: "g y = 0" if "y \<in> A - {x1}" for y
      using that uniq x1 by blast
    have "sum g A = g x1 + sum g (A - {x1})"
      using sum.remove [OF assms(1) x1(1)] .
    also have "sum g (A - {x1}) = 0"
      using zero by simp
    finally have s: "sum g A = g x1" by simp
    have "Max (g ` A) = g x1"
      using x1 zero assms(1) by (intro Max_eqI) force+
    with s show ?thesis by simp
  next
    case False
    then have "g ` A = {0}" using assms(2) by auto
    with False assms show ?thesis by simp
  qed
qed

end
