(* ===== verification/Mode.thy ===== *)
theory Mode
  imports Prelude
begin

text \<open>
  \<open>scipy.stats.mode\<close>, the primitive \<open>rename_labels\<close> calls as
  \<open>mode(predictions)[0][0]\<close>. It is library code, not under src/, and is
  modelled from its documented contract and the loop of the scipy releases
  that return arrays indexable by \<open>[0][0]\<close>: an empty input gives empty
  arrays (so \<open>[0]\<close> raises \<open>IndexError\<close>, the \<open>None\<close> here); otherwise the
  sorted unique scores are scanned and a score replaces the running mode only
  when its count is strictly greater, so ties go to the smallest value.
  From scipy 1.11 on \<open>mode\<close> returns scalars and \<open>mode(...)[0][0]\<close> raises on
  every call; the model follows the earlier releases the code was written for.
  The theory proves that this loop computes the smallest most frequent value
  (\<open>scipy_mode_eq_spec\<close>).
\<close>

section \<open>The scan over the sorted unique values\<close>

fun mode_scan :: "'a list \<Rightarrow> 'a list \<Rightarrow> 'a \<Rightarrow> nat \<Rightarrow> 'a \<times> nat" where
  "mode_scan a [] mf oc = (mf, oc)"
| "mode_scan a (s # ss) mf oc =
     (let counts = count_list a s
      in mode_scan a ss (if oc < counts then s else mf) (max counts oc))"

definition scipy_mode :: "'a::{linorder, zero} list \<Rightarrow> ('a \<times> nat) option" where
  "scipy_mode a = (if a = [] then None else Some (mode_scan a (sort (remdups a)) 0 0))"

section \<open>Specification: the smallest most frequent value\<close>

definition max_count :: "'a list \<Rightarrow> nat" where
  "max_count a = Max (count_list a ` set a)"

definition mode_spec :: "'a::linorder list \<Rightarrow> ('a \<times> nat) option" where
  "mode_spec a = (if a = [] then None
     else Some (Min {x \<in> set a. count_list a x = max_count a}, max_count a))"

section \<open>The scan against the specification\<close>

text \<open>
  The scan keeps the pair (running mode, running count). Over a list of scores
  it returns the first score reaching the largest count of the list, unless the
  running count is already at least that large.
\<close>

lemma mode_scan_first_max:
  assumes "ss \<noteq> []"
  shows "mode_scan a ss mf oc =
    (let M = Max (count_list a ` set ss) in
     if M \<le> oc then (mf, oc) else (hd (filter (\<lambda>s. count_list a s = M) ss), M))"
  using assms
proof (induction ss arbitrary: mf oc)
  case Nil
  then show ?case by simp
next
  case (Cons s ss)
  show ?case
  proof (cases "ss = []")
    case True
    then show ?thesis by (simp add: Let_def)
  next
    case False
    let ?c = "count_list a s"
    let ?M' = "Max (count_list a ` set ss)"
    have M: "Max (count_list a ` set (s # ss)) = max ?c ?M'"
      using False by (simp add: Max_insert)
    have step: "mode_scan a (s # ss) mf oc =
      mode_scan a ss (if oc < ?c then s else mf) (max ?c oc)"
      by (simp add: Let_def)
    have "?M' \<in> count_list a ` set ss"
      using False by (intro Max_in) auto
    then obtain t where "t \<in> set ss" "count_list a t = ?M'" by auto
    show ?thesis
      unfolding step Cons.IH [OF False] M
      by (auto simp: Let_def max_def)
  qed
qed

lemma max_count_pos: "a \<noteq> [] \<Longrightarrow> 0 < max_count a"
proof -
  assume "a \<noteq> []"
  then obtain x where x: "x \<in> set a" by (cases a) auto
  then have "count_list a x \<le> max_count a"
    by (simp add: max_count_def)
  moreover have "0 < count_list a x"
    using x count_list_0_iff by fastforce
  ultimately show ?thesis by simp
qed

lemma max_count_attained:
  "a \<noteq> [] \<Longrightarrow> \<exists>x\<in>set a. count_list a x = max_count a"
proof -
  assume "a \<noteq> []"
  then have "max_count a \<in> count_list a ` set a"
    unfolding max_count_def by (intro Max_in) auto
  then show ?thesis by auto
qed

lemma scipy_mode_eq_spec: "scipy_mode a = mode_spec a"
proof (cases "a = []")
  case True
  then show ?thesis by (simp add: scipy_mode_def mode_spec_def)
next
  case False
  let ?ss = "sort (remdups a)"
  have ne: "?ss \<noteq> []"
    using False by (metis set_empty set_remdups set_sort)
  have scan: "mode_scan a ?ss 0 0 =
      (hd (filter (\<lambda>s. count_list a s = max_count a) ?ss), max_count a)"
    using max_count_pos [OF False]
    by (simp add: mode_scan_first_max [OF ne] max_count_def Let_def)
  have "\<exists>x\<in>set ?ss. count_list a x = max_count a"
    using max_count_attained [OF False] by simp
  then have "hd (filter (\<lambda>s. count_list a s = max_count a) ?ss)
      = Min {x \<in> set a. count_list a x = max_count a}"
    by (subst hd_filter_sorted_Min) simp_all
  with scan False show ?thesis
    by (simp add: scipy_mode_def mode_spec_def)
qed

section \<open>The mode returned by rename_labels\<close>

text \<open>
  The mode as \<open>rename_labels\<close> uses it: a value exactly when the input is
  non-empty, and then the smallest of the most frequent values, with its count.
\<close>

lemma scipy_mode_char:
  "scipy_mode a = Some (m, c) \<longleftrightarrow>
     a \<noteq> [] \<and> m \<in> set a \<and> c = count_list a m \<and>
     (\<forall>x\<in>set a. count_list a x < c \<or> (count_list a x = c \<and> m \<le> x))"
proof
  assume mode: "scipy_mode a = Some (m, c)"
  then have ne: "a \<noteq> []" and c: "c = max_count a"
    and m: "m = Min {x \<in> set a. count_list a x = max_count a}"
    by (auto simp: scipy_mode_eq_spec mode_spec_def split: if_splits)
  let ?S = "{x \<in> set a. count_list a x = max_count a}"
  have S: "finite ?S" "?S \<noteq> {}"
    using max_count_attained [OF ne] by auto
  have "m \<in> ?S" unfolding m using S by (rule Min_in)
  moreover have "count_list a x \<le> max_count a" if "x \<in> set a" for x
    using that by (simp add: max_count_def)
  moreover have "m \<le> x" if "x \<in> ?S" for x
    unfolding m using S(1) that by (rule Min_le)
  ultimately show "a \<noteq> [] \<and> m \<in> set a \<and> c = count_list a m \<and>
     (\<forall>x\<in>set a. count_list a x < c \<or> (count_list a x = c \<and> m \<le> x))"
    using ne c by fastforce
next
  assume r: "a \<noteq> [] \<and> m \<in> set a \<and> c = count_list a m \<and>
     (\<forall>x\<in>set a. count_list a x < c \<or> (count_list a x = c \<and> m \<le> x))"
  then have "max_count a = c"
    unfolding max_count_def by (intro Max_eqI) force+
  moreover have "Min {x \<in> set a. count_list a x = c} = m"
    using r by (intro Min_eqI) force+
  ultimately show "scipy_mode a = Some (m, c)"
    using r by (simp add: scipy_mode_eq_spec mode_spec_def)
qed

end
