(* ===== verification/Relabel.thy ===== *)
theory Relabel
  imports Mode
begin

text \<open>
  \<open>rename_labels(y_true, y_pred)\<close> (src/.../cluster/metrics.py, lines 180-192):
  the greedy majority-vote matching of ground-truth categories to predicted
  cluster ids, and the relabelling of the predictions through it.
  \<open>build_mapping\<close> is the first loop (lines 183-186), \<open>relabel_loop\<close> the second
  (lines 189-191); both run over the same iteration order \<open>cats\<close> of
  \<open>set(y_true)\<close>, which \<open>rename_labels_ord\<close> takes as a parameter and
  \<open>rename_labels\<close> fixes to CPython's order (\<open>py_set_iter\<close>).
\<close>

section \<open>The two loops of rename_labels\<close>

text \<open>
  \<open>mapping\<close> is the Python dict, an association list in insertion order;
  \<open>list(mapping.values())\<close> is \<open>map snd mapping\<close> and \<open>mapping[cat] = v\<close> is
  \<open>AList.update\<close>. \<open>y_pred[y_true == cat]\<close> raises \<open>IndexError\<close> when the
  two vectors differ in length; \<open>mode(predictions)[0][0]\<close> raises it when every
  prediction of the category is already claimed.
\<close>

fun build_mapping ::
  "'a::{linorder, zero} list \<Rightarrow> 'a labels \<Rightarrow> 'a labels \<Rightarrow> ('a \<times> 'a) list \<Rightarrow> ('a \<times> 'a) list py_result"
where
  "build_mapping [] yt yp mapping = Inr mapping"
| "build_mapping (cat # cats) yt yp mapping =
     (if length yt \<noteq> length yp then Inl IndexError
      else
        (let predictions = mask_vals yt yp cat;
             predictions' = filter (\<lambda>p. p \<notin> set (map snd mapping)) predictions
         in case scipy_mode predictions' of
              None \<Rightarrow> Inl IndexError
            | Some (m, _) \<Rightarrow> build_mapping cats yt yp (AList.update cat m mapping)))"

text \<open>
  \<open>result[y_pred == mapping[cat]] = cat\<close>: the mask is taken on the original
  \<open>y_pred\<close>, not on the partly rewritten \<open>result\<close>.
\<close>

fun relabel_loop ::
  "'a list \<Rightarrow> ('a \<times> 'a) list \<Rightarrow> 'a labels \<Rightarrow> 'a labels \<Rightarrow> 'a labels py_result"
where
  "relabel_loop [] mapping yp result = Inr result"
| "relabel_loop (cat # cats) mapping yp result =
     (case map_of mapping cat of
        None \<Rightarrow> Inl KeyError
      | Some v \<Rightarrow> relabel_loop cats mapping yp (mask_assign result yp v cat))"

definition rename_labels_ord ::
  "'a::{linorder, zero} list \<Rightarrow> 'a labels \<Rightarrow> 'a labels \<Rightarrow> 'a labels py_result"
where
  "rename_labels_ord cats yt yp =
     bind_py (build_mapping cats yt yp []) (\<lambda>mapping. relabel_loop cats mapping yp yp)"

definition rename_labels :: "'a::{linorder, zero} labels \<Rightarrow> 'a labels \<Rightarrow> 'a labels py_result" where
  "rename_labels yt yp = rename_labels_ord (py_set_iter yt) yt yp"

section \<open>Specification of the relabelling\<close>

text \<open>
  Each prediction is replaced by the category the mapping sends to it, if there
  is one, and kept otherwise: the inverse of the dict, applied pointwise.
\<close>

definition relabel_spec :: "('a \<times> 'a) list \<Rightarrow> 'a labels \<Rightarrow> 'a labels" where
  "relabel_spec mapping yp =
     map (\<lambda>p. case map_of (map prod.swap mapping) p of Some c \<Rightarrow> c | None \<Rightarrow> p) yp"

text \<open>
  The invariant of the dict built by the first loop: keys and values are
  distinct, and each pair \<open>(c, v)\<close> is observed, that is some observation of
  category \<open>c\<close> was predicted as cluster \<open>v\<close>.
\<close>

definition mapping_inv :: "'a labels \<Rightarrow> 'a labels \<Rightarrow> ('a \<times> 'a) list \<Rightarrow> bool" where
  "mapping_inv yt yp m \<longleftrightarrow>
     distinct (map fst m) \<and> distinct (map snd m) \<and> set m \<subseteq> set (zip yt yp)"

section \<open>Lemmas on the first loop\<close>

lemma mapping_inv_values: "mapping_inv yt yp m \<Longrightarrow> set (map snd m) \<subseteq> set yp"
proof
  fix b assume inv: "mapping_inv yt yp m" and "b \<in> set (map snd m)"
  then obtain a where "(a, b) \<in> set m" by auto
  with inv have "(a, b) \<in> set (zip yt yp)" by (auto simp: mapping_inv_def)
  then show "b \<in> set yp" by (rule set_zip_rightD)
qed

lemma scipy_mode_in_set: "scipy_mode a = Some (v, n) \<Longrightarrow> v \<in> set a"
proof -
  assume "scipy_mode a = Some (v, n)"
  then have ne: "a \<noteq> []" and v: "v = Min {x \<in> set a. count_list a x = max_count a}"
    by (auto simp: scipy_mode_eq_spec mode_spec_def split: if_splits)
  have "{x \<in> set a. count_list a x = max_count a} \<noteq> {}"
    using max_count_attained [OF ne] by auto
  then have "v \<in> {x \<in> set a. count_list a x = max_count a}"
    unfolding v by (intro Min_in) auto
  then show ?thesis by simp
qed

lemma scipy_mode_replicate: "scipy_mode (replicate (Suc k) x) = Some (x, Suc k)"
  by (simp add: scipy_mode_def remdups_replicate_Suc count_list_eq_length_filter del: replicate_Suc)

lemma build_mapping_error: "build_mapping cats yt yp m = Inl e \<Longrightarrow> e = IndexError"
  by (induction cats yt yp m rule: build_mapping.induct)
     (auto simp: Let_def split: if_splits option.splits prod.splits)

lemma build_mapping_inv:
  assumes "build_mapping cats yt yp m = Inr m'" and "mapping_inv yt yp m"
    and "distinct cats" and "set cats \<inter> set (map fst m) = {}"
  shows "mapping_inv yt yp m' \<and> map fst m' = map fst m @ cats"
  using assms
proof (induction cats arbitrary: m)
  case Nil
  then show ?case by simp
next
  case (Cons cat cats)
  let ?preds = "filter (\<lambda>p. p \<notin> set (map snd m)) (mask_vals yt yp cat)"
  from Cons.prems(1) obtain v n where
    mode: "scipy_mode ?preds = Some (v, n)"
    and rec: "build_mapping cats yt yp (AList.update cat v m) = Inr m'"
    by (auto simp: Let_def split: if_splits option.splits)
  have v: "v \<notin> set (map snd m)" "(cat, v) \<in> set (zip yt yp)"
    using scipy_mode_in_set [OF mode] by (auto simp: set_mask_vals)
  have new: "cat \<notin> set (map fst m)" using Cons.prems(4) by auto
  then have upd: "AList.update cat v m = m @ [(cat, v)]"
    by (rule update_new_key)
  have "mapping_inv yt yp (m @ [(cat, v)])"
    using Cons.prems(2) v new by (auto simp: mapping_inv_def)
  moreover have "set cats \<inter> set (map fst (m @ [(cat, v)])) = {}"
    using Cons.prems(3,4) by auto
  ultimately have "mapping_inv yt yp m' \<and> map fst m' = map fst (m @ [(cat, v)]) @ cats"
    using Cons.IH rec upd Cons.prems(3) by simp
  then show ?case by simp
qed

section \<open>Lemmas on the second loop\<close>

text \<open>
  After the second loop has run over \<open>cats\<close>, a position predicted as \<open>p\<close>
  holds the first category of \<open>cats\<close> that the dict sends to \<open>p\<close>, and its
  previous value when there is none. Because the dict is injective on the
  categories the loop visits, at most one write reaches each position.
\<close>

lemma relabel_loop_find:
  assumes "length r = length yp" and "set cats \<subseteq> dom (map_of m)"
    and "inj_on (map_of m) (set cats)"
  shows "relabel_loop cats m yp r =
    Inr (map2 (\<lambda>x p. case List.find (\<lambda>c. map_of m c = Some p) cats of
                       Some c \<Rightarrow> c | None \<Rightarrow> x) r yp)"
  using assms
proof (induction cats arbitrary: r)
  case Nil
  then show ?case by (simp add: map2_fst)
next
  case (Cons c cs)
  from Cons.prems(2) obtain v where v: "map_of m c = Some v" by auto
  let ?h = "\<lambda>cs x p. case List.find (\<lambda>c. map_of m c = Some p) cs of
                       Some c \<Rightarrow> c | None \<Rightarrow> x"
  have IH: "relabel_loop cs m yp (mask_assign r yp v c) =
      Inr (map2 (?h cs) (mask_assign r yp v c) yp)"
    using Cons.prems by (intro Cons.IH) (auto simp: inj_on_insert)
  have pt: "?h cs (if p = v then c else x) p = ?h (c # cs) x p" for x p
  proof (cases "p = v")
    case True
    have "List.find (\<lambda>c. map_of m c = Some v) cs = None \<or>
          List.find (\<lambda>c. map_of m c = Some v) cs = Some c"
    proof (cases "List.find (\<lambda>c. map_of m c = Some v) cs")
      case (Some c')
      then have c'_in: "c' \<in> set (c # cs)" and eqm: "map_of m c' = map_of m c"
        using v by (auto dest: find_SomeD)
      have "c' = c"
        by (rule inj_onD [OF Cons.prems(3) eqm c'_in]) simp
      with Some show ?thesis by simp
    qed simp
    with True v show ?thesis by auto
  next
    case False
    with v show ?thesis by simp
  qed
  have "map2 (?h cs) (mask_assign r yp v c) yp = map2 (?h (c # cs)) r yp"
    unfolding mask_assign_def map2_map2_same [OF Cons.prems(1)] pt ..
  with IH v show ?case by simp
qed

lemma relabel_loop_spec:
  assumes "mapping_inv yt yp m" and "map fst m = cats"
  shows "relabel_loop cats m yp yp = Inr (relabel_spec m yp)"
proof -
  have d: "distinct (map fst m)" and dv: "distinct (map snd m)"
    using assms(1) by (auto simp: mapping_inv_def)
  have dom: "set cats \<subseteq> dom (map_of m)"
    using assms(2) by (auto simp: dom_map_of_conv_image_fst)
  have inj: "inj_on (map_of m) (set cats)"
  proof (rule inj_onI)
    fix a b assume a: "a \<in> set cats" and b: "b \<in> set cats"
      and eq: "map_of m a = map_of m b"
    from a dom obtain w where w: "map_of m a = Some w" by auto
    then have "(a, w) \<in> set m" "(b, w) \<in> set m"
      using eq by (auto dest: map_of_SomeD)
    moreover have "inj_on snd (set m)"
      using dv by (simp add: distinct_map)
    ultimately show "a = b"
      using inj_onD [of snd "set m" "(a, w)" "(b, w)"] by simp
  qed
  have "relabel_loop cats m yp yp =
      Inr (map2 (\<lambda>x p. case List.find (\<lambda>c. map_of m c = Some p) cats of
                         Some c \<Rightarrow> c | None \<Rightarrow> x) yp yp)"
    by (rule relabel_loop_find [OF refl dom inj])
  also have "\<dots> = Inr (relabel_spec m yp)"
    by (simp only: map2_diag relabel_spec_def find_keys_swap [OF d, symmetric] assms(2))
  finally show ?thesis .
qed

lemma rename_labels_ord_spec:
  "distinct cats \<Longrightarrow>
   rename_labels_ord cats yt yp =
     bind_py (build_mapping cats yt yp []) (\<lambda>m. Inr (relabel_spec m yp))"
proof (cases "build_mapping cats yt yp []")
  case (Inr m)
  assume "distinct cats"
  then have "mapping_inv yt yp m \<and> map fst m = cats"
    using build_mapping_inv [OF Inr] by (simp add: mapping_inv_def)
  with Inr show ?thesis
    by (simp add: rename_labels_ord_def relabel_loop_spec [of yt yp m cats])
qed (simp add: rename_labels_ord_def)

section \<open>A perfect clustering is recovered\<close>

lemma build_mapping_map:
  assumes "distinct (ds @ cs)" and "set (ds @ cs) \<subseteq> set yt" and "inj_on f (set yt)"
  shows "build_mapping cs yt (map f yt) (map (\<lambda>c. (c, f c)) ds)
           = Inr (map (\<lambda>c. (c, f c)) (ds @ cs))"
  using assms
proof (induction cs arbitrary: ds)
  case Nil
  then show ?case by simp
next
  case (Cons c cs)
  have "c \<in> set yt" using Cons.prems(2) by simp
  then obtain k where k: "count_list yt c = Suc k"
    by (metis count_list_0_iff not0_implies_Suc)
  have "f c \<notin> f ` set ds"
    using Cons.prems by (auto simp: inj_on_def)
  then have preds: "filter (\<lambda>p. p \<notin> set (map snd (map (\<lambda>c. (c, f c)) ds)))
                  (mask_vals yt (map f yt) c) = replicate (Suc k) (f c)"
    by (simp add: mask_vals_map k o_def del: replicate_Suc)
  have upd: "AList.update c (f c) (map (\<lambda>c. (c, f c)) ds) = map (\<lambda>c. (c, f c)) (ds @ [c])"
    using Cons.prems(1) by (simp add: update_new_key o_def)
  have "build_mapping cs yt (map f yt) (map (\<lambda>c. (c, f c)) (ds @ [c]))
      = Inr (map (\<lambda>c. (c, f c)) ((ds @ [c]) @ cs))"
    using Cons.prems by (intro Cons.IH) auto
  then show ?case
    using upd
    by (simp only: build_mapping.simps length_map preds scipy_mode_replicate Let_def)
       simp
qed

lemma relabel_spec_map:
  assumes "distinct cats" and "set cats = set yt" and "inj_on f (set yt)"
  shows "relabel_spec (map (\<lambda>c. (c, f c)) cats) (map f yt) = yt"
proof -
  have "distinct (map f cats)"
    using assms by (simp add: distinct_map)
  then have "map_of (map (\<lambda>c. (f c, c)) cats) (f t) = Some t" if "t \<in> set yt" for t
    using that assms(2) by (subst map_of_eq_Some_iff) (auto simp: o_def)
  then show ?thesis
    by (simp add: relabel_spec_def o_def map_idI)
qed

section \<open>Recovery and failure of the whole function\<close>

lemma rename_labels_map_inj:
  assumes "inj_on f (set yt)"
  shows "rename_labels yt (map f yt) = Inr yt"
proof -
  let ?cats = "py_set_iter yt"
  have "build_mapping ?cats yt (map f yt) (map (\<lambda>c. (c, f c)) [])
      = Inr (map (\<lambda>c. (c, f c)) ([] @ ?cats))"
    using assms by (intro build_mapping_map) auto
  then show ?thesis
    using relabel_spec_map [of ?cats yt f] assms
    by (simp add: rename_labels_def rename_labels_ord_spec)
qed

lemma rename_labels_few_clusters:
  assumes "card (set yp) < card (set yt)"
  shows "rename_labels yt yp = Inl IndexError"
proof (cases "build_mapping (py_set_iter yt) yt yp []")
  case (Inl e)
  then show ?thesis
    using build_mapping_error [OF Inl] by (simp add: rename_labels_def rename_labels_ord_def)
next
  case (Inr m)
  then have inv: "mapping_inv yt yp m" and keys: "map fst m = py_set_iter yt"
    using build_mapping_inv [OF Inr] by (simp_all add: mapping_inv_def)
  have "card (set yt) = length m"
    using keys by (metis length_map length_py_set_iter)
  also have "\<dots> = card (set (map snd m))"
    using inv distinct_card [of "map snd m"] by (simp add: mapping_inv_def)
  also have "\<dots> \<le> card (set yp)"
    using mapping_inv_values [OF inv] by (intro card_mono) simp_all
  finally show ?thesis using assms by simp
qed

lemmas relabel_eval = rename_labels_def rename_labels_ord_def py_set_iter_def
  scipy_mode_def mask_vals_def mask_assign_def

section \<open>Properties of rename_labels\<close>

text \<open>
  C1. The dict built by the first loop of \<open>rename_labels\<close> is an injective
  matching: its keys are the categories in iteration order, no cluster id is
  used twice, and each category is matched to a cluster id that was predicted
  for at least one observation of that category.
\<close>

theorem rename_labels_mapping_injective:
  assumes "distinct cats" and "build_mapping cats yt yp [] = Inr m"
  shows "map fst m = cats \<and> distinct (map snd m) \<and> set m \<subseteq> set (zip yt yp)"
  using build_mapping_inv [OF assms(2) _ assms(1)] by (simp add: mapping_inv_def)

theorem rename_labels_mapping_injective_witness:
  "map fst [(0, 5), (1, 9)] = [0, 1::int] \<and> distinct (map snd [(0, 5), (1, 9::int)]) \<and>
   set [(0, 5), (1, 9)] \<subseteq> set (zip [0, 0, 1, 1, 1::int] [5, 9, 5, 5, 9::int])"
proof -
  have b: "build_mapping [0, 1] [0, 0, 1, 1, 1::int] [5, 9, 5, 5, 9] [] = Inr [(0, 5), (1, 9)]"
    by (simp add: relabel_eval)
  show ?thesis
    using rename_labels_mapping_injective [OF _ b] by simp
qed

text \<open>
  C2. \<open>rename_labels\<close> refines the pointwise specification: it fails exactly
  when building the dict fails, and otherwise replaces every prediction by the
  category the dict maps to it, keeping predictions no category maps to. So
  the order of the second loop does not matter and no position is written twice.
\<close>

theorem rename_labels_refines_spec:
  "rename_labels yt yp =
     bind_py (build_mapping (py_set_iter yt) yt yp []) (\<lambda>m. Inr (relabel_spec m yp))"
  by (simp add: rename_labels_def rename_labels_ord_spec)

text \<open>
  C3. A perfect clustering is recovered: when the predicted ids are an injective
  renaming \<open>f\<close> of the true categories, \<open>rename_labels\<close> returns the true labels
  (the spec's example \<open>[0,0,1,1]\<close>, \<open>[5,5,9,9]\<close> is one instance).
\<close>

theorem rename_labels_recovers_perfect_clustering:
  assumes "inj_on f (set yt)"
  shows "rename_labels yt (map f yt) = Inr yt"
  using assms by (rule rename_labels_map_inj)

theorem rename_labels_recovers_perfect_clustering_witness:
  "inj_on (\<lambda>x::int. if x = 0 then 5 else (9::int)) (set [0, 0, 1, 1]) \<and>
   rename_labels [0, 0, 1, 1::int] [5, 5, 9, 9] = Inr [0, 0, 1, 1]"
proof -
  have inj: "inj_on (\<lambda>x::int. if x = 0 then 5 else (9::int)) (set [0, 0, 1, 1])"
    by (simp add: inj_on_def)
  have "map (\<lambda>x::int. if x = 0 then 5 else (9::int)) [0, 0, 1, 1] = [5, 5, 9, (9::int)]"
    by simp
  with rename_labels_recovers_perfect_clustering [OF inj] inj show ?thesis by simp
qed

text \<open>
  C7. One step of the first loop is the majority vote: category \<open>c\<close> is
  matched to the smallest of the most frequent predictions among its
  observations that no earlier category has claimed, and the dict grows by
  that pair at its end.
\<close>

theorem build_mapping_majority_vote:
  assumes "length yt = length yp" and "c \<notin> set (map fst m)"
    and "preds = filter (\<lambda>p. p \<notin> set (map snd m)) (mask_vals yt yp c)"
    and "v \<in> set preds"
    and "\<forall>x\<in>set preds. count_list preds x < count_list preds v \<or>
           (count_list preds x = count_list preds v \<and> v \<le> x)"
  shows "build_mapping (c # cs) yt yp m = build_mapping cs yt yp (m @ [(c, v)])"
proof -
  have "scipy_mode preds = Some (v, count_list preds v)"
    using assms(4,5) by (subst scipy_mode_char) auto
  with assms(1,2,3) show ?thesis
    by (simp add: update_new_key)
qed

theorem build_mapping_majority_vote_witness:
  "build_mapping [0, 1] [0, 0, 1, 1, 1::int] [5, 9, 5, 5, 9] [] =
   build_mapping [1] [0, 0, 1, 1, 1::int] [5, 9, 5, 5, 9] [(0, 5)]"
proof -
  have p: "filter (\<lambda>p. p \<notin> set (map snd ([]::(int \<times> int) list)))
             (mask_vals [0, 0, 1, 1, 1::int] [5, 9, 5, 5, 9] 0) = [5, 9]"
    by (simp add: mask_vals_def)
  have "\<forall>x\<in>set [5, 9::int]. count_list [5, 9::int] x < count_list [5, 9::int] 5 \<or>
          (count_list [5, 9::int] x = count_list [5, 9::int] 5 \<and> (5::int) \<le> x)"
    by simp
  then show ?thesis
    using build_mapping_majority_vote [OF _ _ p [symmetric], of 5 "[1]"] by simp
qed

text \<open>
  C4. When the predictions use fewer distinct cluster ids than there are
  categories, some category finds every candidate already claimed, and
  \<open>mode([])[0][0]\<close> raises \<open>IndexError\<close>: the case the spec leaves undefined
  is an exception, never a partial mapping.
\<close>

theorem rename_labels_pigeonhole_error:
  assumes "card (set yp) < card (set yt)"
  shows "rename_labels yt yp = Inl IndexError"
  using assms by (rule rename_labels_few_clusters)

theorem rename_labels_pigeonhole_error_witness:
  "card (set [5, 5::int]) < card (set [0, 1::int]) \<and>
   rename_labels [0, 1::int] [5, 5] = Inl IndexError"
  using rename_labels_pigeonhole_error [of "[5, 5::int]" "[0, 1::int]"] by simp

text \<open>
  C5. A successful result has the length of \<open>y_pred\<close>, and each entry is the
  prediction itself or a category that was observed together with that
  prediction at some position.
\<close>

theorem rename_labels_output_shape:
  assumes "rename_labels yt yp = Inr r"
  shows "length r = length yp \<and>
         (\<forall>i<length yp. r ! i = yp ! i \<or> (r ! i, yp ! i) \<in> set (zip yt yp))"
proof -
  from assms obtain m where b: "build_mapping (py_set_iter yt) yt yp [] = Inr m"
    and r: "r = relabel_spec m yp"
    by (auto simp: rename_labels_def rename_labels_ord_spec bind_py_eq_Inr)
  have sub: "set m \<subseteq> set (zip yt yp)"
    using build_mapping_inv [OF b] by (simp add: mapping_inv_def)
  have "r ! i = yp ! i \<or> (r ! i, yp ! i) \<in> set (zip yt yp)" if "i < length yp" for i
  proof (cases "map_of (map prod.swap m) (yp ! i)")
    case None
    with that r show ?thesis by (simp add: relabel_spec_def)
  next
    case (Some c)
    then have "(c, yp ! i) \<in> set m"
      by (auto dest: map_of_SomeD)
    with Some that r sub show ?thesis by (auto simp: relabel_spec_def)
  qed
  with r show ?thesis by (simp add: relabel_spec_def)
qed

theorem rename_labels_output_shape_witness:
  "length [0, 1, 0, 0, 1::int] = length [5, 9, 5, 5, 9::int] \<and>
   ([0, 1, 0, 0, 1::int] ! 1 = [5, 9, 5, 5, 9::int] ! 1 \<or>
    ([0, 1, 0, 0, 1::int] ! 1, [5, 9, 5, 5, 9::int] ! 1)
      \<in> set (zip [0, 0, 1, 1, 1::int] [5, 9, 5, 5, 9::int]))"
proof -
  have r: "rename_labels [0, 0, 1, 1, 1::int] [5, 9, 5, 5, 9] = Inr [0, 1, 0, 0, 1]"
    by (simp add: relabel_eval)
  have "(1::nat) < length [5, 9, 5, 5, 9::int]" by simp
  then show ?thesis using rename_labels_output_shape [OF r] by blast
qed

text \<open>
  C6. The precondition \<open>len(y_true) == len(y_pred)\<close> is enforced only by
  numpy's mask indexing inside the first loop: a length mismatch raises
  \<open>IndexError\<close>, except for an empty \<open>y_true\<close>, where no loop body runs and
  \<open>y_pred\<close> is returned unchanged.
\<close>

theorem rename_labels_length_mismatch:
  assumes "length yt \<noteq> length yp"
  shows "rename_labels yt yp = (if yt = [] then Inr yp else Inl IndexError)"
proof (cases "py_set_iter yt")
  case Nil
  then have "yt = []" by (metis py_set_iter_set set_empty)
  with Nil show ?thesis by (simp add: rename_labels_def rename_labels_ord_def)
next
  case (Cons c cs)
  then have "yt \<noteq> []" by (metis list.distinct(1) py_set_iter_set set_empty)
  with Cons assms show ?thesis by (simp add: rename_labels_def rename_labels_ord_def)
qed

theorem rename_labels_length_mismatch_witness:
  "length ([]::int list) \<noteq> length [5::int] \<and> rename_labels [] [5::int] = Inr [5] \<and>
   length [0::int] \<noteq> length [5, 9::int] \<and> rename_labels [0::int] [5, 9] = Inl IndexError"
  using rename_labels_length_mismatch [of "[]::int list" "[5]"]
    rename_labels_length_mismatch [of "[0::int]" "[5, 9]"]
  by simp

text \<open>
  The matching depends on the iteration order of \<open>set(y_true)\<close>: on the
  same inputs, visiting category 0 first or category 1 first gives different
  relabellings. CPython visits 0 first for these labels; for labels whose
  CPython set order is not ascending (strings, negative or large ints) the
  result of \<open>rename_labels\<close> follows that other order, which the model's
  \<open>py_set_iter\<close> does not describe.
\<close>

lemma rename_labels_order_dependent:
  "rename_labels [0, 0, 1, 1, 1::int] [5, 9, 5, 5, 9] = Inr [0, 1, 0, 0, 1] \<and>
   rename_labels_ord [0, 1] [0, 0, 1, 1, 1::int] [5, 9, 5, 5, 9] = Inr [0, 1, 0, 0, 1] \<and>
   rename_labels_ord [1, 0] [0, 0, 1, 1, 1::int] [5, 9, 5, 5, 9] = Inr [1, 0, 1, 1, 0]"
  by (simp add: relabel_eval)

end
