(* ===== verification/Purity.thy ===== *)
theory Purity
  imports Prelude Complex_Main
begin

text \<open>
  \<open>purity_score\<close>, the local function of \<open>get_metrics\<close>
  (src/.../cluster/metrics.py, lines 196-198), over scikit-learn's
  \<open>contingency_matrix\<close>. The matrix is library code, modelled from its contract:
  rows are the sorted distinct true labels, columns the sorted distinct
  predicted labels, entry \<open>(c, k)\<close> the number of observations with true label
  \<open>c\<close> predicted as \<open>k\<close>; unequal lengths raise \<open>ValueError\<close>. The score divides
  the sum of the column maxima (\<open>np.amax(cm, axis=0)\<close>, which raises
  \<open>ValueError\<close> on a matrix without rows) by the sum of all entries. The theory
  proves that this equals the partition-level definition of purity, and its
  bounds and invariance.
\<close>

section \<open>The contingency matrix and purity_score\<close>

definition pair_count :: "'a labels \<Rightarrow> 'b labels \<Rightarrow> 'a \<Rightarrow> 'b \<Rightarrow> nat" where
  "pair_count yt yp c k = count_list (zip yt yp) (c, k)"

definition contingency_matrix ::
  "'a::linorder labels \<Rightarrow> 'b::linorder labels \<Rightarrow> nat list list py_result"
where
  "contingency_matrix yt yp =
     (if length yt \<noteq> length yp then Inl ValueError
      else Inr (map (\<lambda>c. map (\<lambda>k. pair_count yt yp c k) (py_set_iter yp)) (py_set_iter yt)))"

text \<open>\<open>np.amax(cm, axis=0)\<close>: for each column index, the maximum over the rows.\<close>

definition amax_axis0 :: "nat list list \<Rightarrow> nat list py_result" where
  "amax_axis0 cm =
     (if cm = [] then Inl ValueError
      else Inr (map (\<lambda>j. Max (set (map (\<lambda>row. row ! j) cm))) [0..<length (hd cm)]))"

definition purity_score :: "'a::linorder labels \<Rightarrow> 'b::linorder labels \<Rightarrow> real py_result" where
  "purity_score yt yp =
     bind_py (contingency_matrix yt yp) (\<lambda>cm.
     bind_py (amax_axis0 cm) (\<lambda>colmax.
       Inr (real (sum_list colmax) / real (sum_list (map sum_list cm)))))"

section \<open>Specification: purity of a partition\<close>

text \<open>
  Each predicted cluster contributes the size of its largest true category;
  purity is the total over the clusters divided by the number of observations.
\<close>

definition purity_spec :: "'a labels \<Rightarrow> 'b labels \<Rightarrow> real" where
  "purity_spec yt yp =
     real (\<Sum>k\<in>set yp. Max ((\<lambda>c. pair_count yt yp c k) ` set yt)) / real (length yt)"

section \<open>Lemmas\<close>

lemma sum_pair_count:
  "length yt = length yp \<Longrightarrow>
   (\<Sum>c\<in>set yt. \<Sum>k\<in>set yp. pair_count yt yp c k) = length yt"
proof -
  assume len: "length yt = length yp"
  have "(\<Sum>c\<in>set yt. \<Sum>k\<in>set yp. pair_count yt yp c k)
      = (\<Sum>ck\<in>set yt \<times> set yp. count_list (zip yt yp) ck)"
    by (simp add: pair_count_def sum.cartesian_product)
  also have "\<dots> = length (zip yt yp)"
    by (rule sum_count_set) (auto dest: set_zip_leftD set_zip_rightD)
  finally show ?thesis using len by simp
qed

lemma amax_axis0_rect:
  assumes "cs \<noteq> []"
  shows "amax_axis0 (map (\<lambda>c. map (f c) ks) cs) = Inr (map (\<lambda>k. Max (set (map (\<lambda>c. f c k) cs))) ks)"
proof -
  have "map (\<lambda>j. Max (set (map (\<lambda>row. row ! j) (map (\<lambda>c. map (f c) ks) cs)))) [0..<length ks]
      = map (\<lambda>j. Max (set (map (\<lambda>c. f c (ks ! j)) cs))) [0..<length ks]"
    by (rule map_cong) (simp_all add: o_def)
  also have "\<dots> = map (\<lambda>k. Max (set (map (\<lambda>c. f c k) cs))) ks"
    by (subst map_nth [symmetric, of ks]) (simp only: map_map o_def)
  finally show ?thesis
    using assms by (auto simp: amax_axis0_def hd_map)
qed

lemma purity_score_spec:
  assumes "length yt = length yp" and "yt \<noteq> []"
  shows "purity_score yt yp = Inr (purity_spec yt yp)"
proof -
  let ?cs = "py_set_iter yt" and ?ks = "py_set_iter yp"
  have ne: "?cs \<noteq> []" using assms(2) by (metis py_set_iter_set set_empty)
  have cols: "sum_list (map (\<lambda>k. Max (set (map (\<lambda>c. pair_count yt yp c k) ?cs))) ?ks)
      = (\<Sum>k\<in>set yp. Max ((\<lambda>c. pair_count yt yp c k) ` set yt))"
    by (simp add: sum_list_distinct_conv_sum_set)
  have tot: "sum_list (map sum_list (map (\<lambda>c. map (pair_count yt yp c) ?ks) ?cs)) = length yt"
    using sum_pair_count [OF assms(1)]
    by (simp add: sum_list_distinct_conv_sum_set o_def)
  show ?thesis
    using assms(1) ne cols tot
    by (simp add: purity_score_def contingency_matrix_def amax_axis0_rect purity_spec_def)
qed

lemma purity_score_error:
  "length yt \<noteq> length yp \<or> yt = [] \<Longrightarrow> purity_score yt yp = Inl ValueError"
  by (auto simp: purity_score_def contingency_matrix_def amax_axis0_def py_set_iter_def)

lemma purity_score_Inr_pre:
  "purity_score yt yp = Inr p \<Longrightarrow> length yt = length yp \<and> yt \<noteq> []"
  using purity_score_error by force

lemma max_pair_count_le_sum:
  assumes "yt \<noteq> []"
  shows "Max ((\<lambda>c. pair_count yt yp c k) ` set yt) \<le> (\<Sum>c\<in>set yt. pair_count yt yp c k)"
proof -
  have "Max ((\<lambda>c. pair_count yt yp c k) ` set yt) \<in> (\<lambda>c. pair_count yt yp c k) ` set yt"
    using assms by (intro Max_in) auto
  then obtain c where "c \<in> set yt" "Max ((\<lambda>c. pair_count yt yp c k) ` set yt) = pair_count yt yp c k"
    by auto
  then show ?thesis by (metis finite_set member_le_sum zero_le)
qed

lemma purity_num_le:
  "length yt = length yp \<Longrightarrow>
   (\<Sum>k\<in>set yp. Max ((\<lambda>c. pair_count yt yp c k) ` set yt)) \<le> length yt"
proof (cases "yt = []")
  case True
  assume "length yt = length yp"
  with True show ?thesis by simp
next
  case False
  assume len: "length yt = length yp"
  have "(\<Sum>k\<in>set yp. Max ((\<lambda>c. pair_count yt yp c k) ` set yt))
      \<le> (\<Sum>k\<in>set yp. \<Sum>c\<in>set yt. pair_count yt yp c k)"
    using False by (intro sum_mono max_pair_count_le_sum)
  also have "\<dots> = (\<Sum>c\<in>set yt. \<Sum>k\<in>set yp. pair_count yt yp c k)"
    by (rule sum.swap)
  finally show ?thesis using sum_pair_count [OF len] by simp
qed

lemma purity_num_pos:
  assumes "length yt = length yp" and "yt \<noteq> []"
  shows "0 < (\<Sum>k\<in>set yp. Max ((\<lambda>c. pair_count yt yp c k) ` set yt))"
proof -
  obtain c k where ck: "(c, k) \<in> set (zip yt yp)"
    using assms by (metis list.exhaust zip_Cons_Cons list.set_intros(1) length_0_conv)
  then have c: "c \<in> set yt" and k: "k \<in> set yp"
    by (auto dest: set_zip_leftD set_zip_rightD)
  have "0 < pair_count yt yp c k"
    using ck count_list_0_iff [of "zip yt yp" "(c, k)"] by (simp add: pair_count_def)
  also have "\<dots> \<le> Max ((\<lambda>c. pair_count yt yp c k) ` set yt)"
    using c by (intro Max_ge) auto
  also have "\<dots> \<le> (\<Sum>k\<in>set yp. Max ((\<lambda>c. pair_count yt yp c k) ` set yt))"
    using k by (intro member_le_sum) auto
  finally show ?thesis .
qed

lemma pair_count_map_inj:
  assumes "inj_on f (set yp)" and "k \<in> set yp"
  shows "pair_count yt (map f yp) c (f k) = pair_count yt yp c k"
proof -
  let ?g = "\<lambda>(a, b). (a, f b)"
  have z: "zip yt (map f yp) = map ?g (zip yt yp)" by (rule zip_map2)
  have inj: "inj_on ?g (set (zip yt yp))"
    using assms(1) by (auto simp: inj_on_def dest: set_zip_rightD)
  show ?thesis
  proof (cases "(c, k) \<in> set (zip yt yp)")
    case True
    then show ?thesis
      using count_list_inj_map [OF inj True] by (simp add: pair_count_def z)
  next
    case False
    have "(c, f k) \<notin> set (map ?g (zip yt yp))"
    proof
      assume "(c, f k) \<in> set (map ?g (zip yt yp))"
      then obtain k' where "(c, k') \<in> set (zip yt yp)" "f k' = f k" by auto
      with assms False show False by (metis inj_on_eq_iff set_zip_rightD)
    qed
    with False show ?thesis by (simp add: pair_count_def z)
  qed
qed

section \<open>Purity in the unit interval and for a perfect clustering\<close>

lemma purity_score_in_unit:
  assumes "purity_score yt yp = Inr p"
  shows "0 < p \<and> p \<le> 1"
proof -
  from purity_score_Inr_pre [OF assms] have len: "length yt = length yp" and ne: "yt \<noteq> []"
    by simp_all
  let ?n = "\<Sum>k\<in>set yp. Max ((\<lambda>c. pair_count yt yp c k) ` set yt)"
  have p: "p = real ?n / real (length yt)"
    using assms purity_score_spec [OF len ne] by (simp add: purity_spec_def)
  have "0 < ?n" by (rule purity_num_pos [OF len ne])
  moreover have "?n \<le> length yt" by (rule purity_num_le [OF len])
  ultimately have "0 < real ?n" "real ?n \<le> real (length yt)" "0 < real (length yt)"
    using ne by (simp_all del: of_nat_sum)
  then show ?thesis
    unfolding p by (auto simp: divide_le_eq_1 simp del: of_nat_sum)
qed

lemma pair_count_graph:
  assumes "inj_on f (set yt)" and "c \<in> set yt" and "c' \<in> set yt"
  shows "pair_count yt (map f yt) c' (f c) = (if c' = c then count_list yt c else 0)"
proof -
  let ?g = "\<lambda>t. (t, f t)"
  have z: "zip yt (map f yt) = map ?g yt" by (induction yt) auto
  have inj: "inj_on ?g (set yt)" by (auto simp: inj_on_def)
  show ?thesis
  proof (cases "c' = c")
    case True
    then show ?thesis
      using count_list_inj_map [OF inj assms(2)] by (simp add: pair_count_def z)
  next
    case False
    then have "(c', f c) \<notin> set (map ?g yt)"
      using assms by (auto dest: inj_onD)
    with False show ?thesis by (simp add: pair_count_def z)
  qed
qed

lemma purity_score_map_inj:
  assumes "inj_on f (set yt)" and "yt \<noteq> []"
  shows "purity_score yt (map f yt) = Inr 1"
proof -
  have mx: "Max ((\<lambda>c'. pair_count yt (map f yt) c' (f c)) ` set yt) = count_list yt c"
    if c: "c \<in> set yt" for c
  proof -
    have "(\<lambda>c'. pair_count yt (map f yt) c' (f c)) ` set yt
        = (\<lambda>c'. if c' = c then count_list yt c else 0) ` set yt"
      using assms(1) c by (intro image_cong refl) (simp add: pair_count_graph)
    also have "Max \<dots> = count_list yt c"
      using c by (intro Max_eqI) auto
    finally show ?thesis .
  qed
  have "(\<Sum>k\<in>set (map f yt). Max ((\<lambda>c'. pair_count yt (map f yt) c' k) ` set yt))
      = (\<Sum>c\<in>set yt. Max ((\<lambda>c'. pair_count yt (map f yt) c' (f c)) ` set yt))"
    using assms(1) by (simp add: sum.reindex)
  also have "\<dots> = (\<Sum>c\<in>set yt. count_list yt c)"
    by (intro sum.cong refl) (rule mx)
  also have "\<dots> = length yt"
    by (rule sum_count_set) simp_all
  finally show ?thesis
    using assms(2) purity_score_spec [of yt "map f yt"] by (simp add: purity_spec_def)
qed

lemma pair_count_pos: "0 < pair_count yt yp c k \<longleftrightarrow> (c, k) \<in> set (zip yt yp)"
  by (simp add: pair_count_def zero_less_iff_neq_zero count_list_0_iff)

lemma purity_one_iff_columns:
  assumes "length yt = length yp" and "yt \<noteq> []"
  shows "purity_score yt yp = Inr 1 \<longleftrightarrow>
    (\<forall>k\<in>set yp. Max ((\<lambda>c. pair_count yt yp c k) ` set yt) = (\<Sum>c\<in>set yt. pair_count yt yp c k))"
proof -
  let ?M = "\<lambda>k. Max ((\<lambda>c. pair_count yt yp c k) ` set yt)"
  let ?S = "\<lambda>k. \<Sum>c\<in>set yt. pair_count yt yp c k"
  have tot: "sum ?S (set yp) = length yt"
    using sum_pair_count [OF assms(1)] by (simp add: sum.swap [of _ "set yt"])
  have le: "?M k \<le> ?S k" for k by (rule max_pair_count_le_sum [OF assms(2)])
  have "purity_score yt yp = Inr 1 \<longleftrightarrow> sum ?M (set yp) = length yt"
    using purity_score_spec [OF assms] assms(2) by (auto simp: purity_spec_def simp del: of_nat_sum)
  also have "\<dots> \<longleftrightarrow> (\<forall>k\<in>set yp. ?M k = ?S k)"
  proof
    assume "sum ?M (set yp) = length yt"
    then have "sum ?M (set yp) = sum ?S (set yp)" using tot by simp
    then show "\<forall>k\<in>set yp. ?M k = ?S k"
      using le by (auto intro: sum_mono_inv)
  next
    assume "\<forall>k\<in>set yp. ?M k = ?S k"
    then have "sum ?M (set yp) = sum ?S (set yp)" by (intro sum.cong) auto
    then show "sum ?M (set yp) = length yt" using tot by simp
  qed
  finally show ?thesis .
qed

section \<open>Properties of purity_score\<close>

text \<open>
  C8. On equal-length, non-empty label vectors \<open>purity_score\<close> computes the
  purity of the partition: for each predicted cluster the size of its largest
  true category, summed and divided by the number of observations.
\<close>

theorem purity_score_refines_spec:
  assumes "length yt = length yp" and "yt \<noteq> []"
  shows "purity_score yt yp =
    Inr (real (\<Sum>k\<in>set yp. Max ((\<lambda>c. pair_count yt yp c k) ` set yt)) / real (length yt))"
  using purity_score_spec [OF assms] by (simp add: purity_spec_def)

theorem purity_score_refines_spec_witness:
  "purity_score [0, 1, 1::int] [5, 5, 9::int] =
   Inr (real (\<Sum>k\<in>set [5, 5, 9::int]. Max ((\<lambda>c. pair_count [0, 1, 1::int] [5, 5, 9] c k) ` set [0, 1, 1]))
        / real (length [0, 1, 1::int]))"
  by (rule purity_score_refines_spec) simp_all

text \<open>
  C9. A purity that \<open>purity_score\<close> returns lies in \<open>(0, 1]\<close>.
\<close>

theorem purity_score_bounds:
  assumes "purity_score yt yp = Inr p"
  shows "0 < p \<and> p \<le> 1"
  using assms by (rule purity_score_in_unit)

theorem purity_score_bounds_witness:
  "purity_score [0, 0, 1, 1::int] [5, 9, 5, 9::int] = Inr (1 / 2) \<and>
   0 < (1 / 2 :: real) \<and> (1 / 2 :: real) \<le> 1"
proof -
  have p: "purity_score [0, 0, 1, 1::int] [5, 9, 5, 9::int] = Inr (1 / 2)"
    by (simp add: purity_score_def contingency_matrix_def amax_axis0_def py_set_iter_def pair_count_def)
  then show ?thesis using purity_score_bounds [OF p] by simp
qed

text \<open>
  C10. Purity depends only on the partition \<open>y_pred\<close> induces, not on the ids
  it uses: renaming the cluster ids injectively leaves \<open>purity_score\<close>
  unchanged, errors included.
\<close>

theorem purity_score_relabel_invariant:
  fixes f :: "'b::linorder \<Rightarrow> 'c::linorder"
  assumes "inj_on f (set yp)"
  shows "purity_score yt (map f yp) = purity_score yt yp"
proof (cases "length yt = length yp \<and> yt \<noteq> []")
  case True
  then have len: "length yt = length yp" and ne: "yt \<noteq> []" by simp_all
  have "(\<Sum>k'\<in>set (map f yp). Max ((\<lambda>c. pair_count yt (map f yp) c k') ` set yt))
      = (\<Sum>k\<in>set yp. Max ((\<lambda>c. pair_count yt (map f yp) c (f k)) ` set yt))"
    using assms by (simp add: sum.reindex)
  also have "\<dots> = (\<Sum>k\<in>set yp. Max ((\<lambda>c. pair_count yt yp c k) ` set yt))"
    using assms by (intro sum.cong refl) (simp add: pair_count_map_inj)
  finally show ?thesis
    using len ne purity_score_spec [OF len ne] purity_score_spec [of yt "map f yp"]
    by (simp add: purity_spec_def)
next
  case False
  then show ?thesis by (simp add: purity_score_error)
qed

theorem purity_score_relabel_invariant_witness:
  "purity_score [0, 0, 1, 1::int] (map (\<lambda>k::int. 10 * k) [5, 9, 5, 9]) =
   purity_score [0, 0, 1, 1::int] [5, 9, 5, 9::int]"
  by (rule purity_score_relabel_invariant) (simp add: inj_on_def)

text \<open>
  C11. \<open>purity_score\<close> is 1 exactly when the clustering is pure: the inputs are
  valid (equal lengths, non-empty) and no predicted cluster contains
  observations of two different true categories.
\<close>

theorem purity_score_one_iff_pure:
  "purity_score yt yp = Inr 1 \<longleftrightarrow>
     length yt = length yp \<and> yt \<noteq> [] \<and>
     (\<forall>c c' k. (c, k) \<in> set (zip yt yp) \<longrightarrow> (c', k) \<in> set (zip yt yp) \<longrightarrow> c = c')"
proof (cases "length yt = length yp \<and> yt \<noteq> []")
  case True
  then have len: "length yt = length yp" and ne: "yt \<noteq> []" by simp_all
  have "purity_score yt yp = Inr 1 \<longleftrightarrow>
      (\<forall>k\<in>set yp. \<forall>c\<in>set yt. \<forall>c'\<in>set yt.
         0 < pair_count yt yp c k \<longrightarrow> 0 < pair_count yt yp c' k \<longrightarrow> c = c')"
    using purity_one_iff_columns [OF len ne] ne by (simp add: Max_eq_sum_iff)
  also have "\<dots> \<longleftrightarrow>
      (\<forall>c c' k. (c, k) \<in> set (zip yt yp) \<longrightarrow> (c', k) \<in> set (zip yt yp) \<longrightarrow> c = c')"
    by (auto simp: pair_count_pos dest: set_zip_leftD set_zip_rightD)
  finally show ?thesis using True by simp
next
  case False
  then show ?thesis by (auto simp: purity_score_error)
qed

theorem purity_score_one_iff_pure_witness:
  "purity_score [0, 0, 1, 1::int] [5, 5, 9, 9::int] = Inr 1"
proof -
  have "length [0, 0, 1, 1::int] = length [5, 5, 9, 9::int] \<and> [0, 0, 1, 1::int] \<noteq> [] \<and>
     (\<forall>c c' k. (c, k) \<in> set (zip [0, 0, 1, 1::int] [5, 5, 9, 9::int]) \<longrightarrow>
        (c', k) \<in> set (zip [0, 0, 1, 1::int] [5, 5, 9, 9::int]) \<longrightarrow> c = c')"
    by auto
  then show ?thesis using purity_score_one_iff_pure [of "[0, 0, 1, 1::int]" "[5, 5, 9, 9::int]"]
    by blast
qed

text \<open>The spec's examples, evaluated.\<close>

lemma purity_score_spec_examples:
  "purity_score [0, 0, 1, 1::int] [5, 5, 9, 9::int] = Inr 1 \<and>
   purity_score [0, 0, 1, 1::int] [5, 9, 5, 9::int] = Inr (1 / 2)"
  by (simp add: purity_score_def contingency_matrix_def amax_axis0_def py_set_iter_def pair_count_def)

end
