(* ===== verification/Metrics.thy ===== *)
theory Metrics
  imports Relabel Purity
begin

text \<open>
  \<open>get_metrics(y_true, y_pred, X=None, alg=None)\<close> (src/.../cluster/metrics.py,
  lines 195-219). The scikit-learn scores it calls are not repository code and
  enter as the fields of an interface record \<open>sk_scores\<close>, each a function
  that returns a float or raises; \<open>purity_score\<close> (theory \<open>Purity\<close>) and
  \<open>rename_labels\<close> (theory \<open>Relabel\<close>) are the repository's own. The result
  dict is an association list in insertion order, paired with the lines the
  function prints. \<open>davies_bouldin_score(None, ...)\<close> fails scikit-learn's
  input validation with \<open>ValueError\<close>.
\<close>

section \<open>The scikit-learn interface\<close>

datatype f1_average = Micro | Binary

record 'x sk_scores =
  adjusted_rand_score :: "int labels \<Rightarrow> int labels \<Rightarrow> real py_result"
  davies_bouldin_score :: "'x \<Rightarrow> int labels \<Rightarrow> real py_result"
  f1_score :: "int labels \<Rightarrow> int labels \<Rightarrow> f1_average \<Rightarrow> real py_result"
  silhouette_score :: "'x \<Rightarrow> int labels \<Rightarrow> string \<Rightarrow> real py_result"

type_synonym metrics_dict = "(string \<times> real) list"

section \<open>get_metrics\<close>

definition n_classes :: "int labels \<Rightarrow> nat" where
  "n_classes yt = card (set yt)"

text \<open>Lines 204-211: the f-measure, chosen by the number of true categories.\<close>

definition f_measure_step ::
  "'x sk_scores \<Rightarrow> int labels \<Rightarrow> int labels \<Rightarrow> metrics_dict \<Rightarrow> (metrics_dict \<times> string list) py_result"
where
  "f_measure_step sk yt yp d =
     (if n_classes yt > 2 then
        bind_py (rename_labels yt yp) (\<lambda>r.
        bind_py (f1_score sk yt r Micro) (\<lambda>f. Inr (AList.update ''f-measure'' f d, [])))
      else if n_classes yt = 2 then
        bind_py (rename_labels yt yp) (\<lambda>r.
        bind_py (f1_score sk yt r Binary) (\<lambda>f. Inr (AList.update ''f-measure'' f d, [])))
      else Inr (d, [''n_classes must be greater than 1'']))"

text \<open>Lines 213-217: the silhouette, with the metric chosen by the algorithm name.\<close>

definition silhouette_metric :: "string \<Rightarrow> string" where
  "silhouette_metric alg = (if alg = ''kproto'' \<or> alg = ''kmodes'' then ''manhattan'' else ''euclidean'')"

definition silhouette_step ::
  "'x sk_scores \<Rightarrow> int labels \<Rightarrow> 'x option \<Rightarrow> string option \<Rightarrow> metrics_dict \<Rightarrow> metrics_dict py_result"
where
  "silhouette_step sk yp X alg d =
     (case (alg, X) of
        (Some a, Some x) \<Rightarrow>
          bind_py (silhouette_score sk x yp (silhouette_metric a)) (\<lambda>s.
            Inr (AList.update ''silhouette'' s d))
      | _ \<Rightarrow> Inr d)"

definition get_metrics ::
  "'x sk_scores \<Rightarrow> int labels \<Rightarrow> int labels \<Rightarrow> 'x option \<Rightarrow> string option \<Rightarrow>
   (metrics_dict \<times> string list) py_result"
where
  "get_metrics sk yt yp X alg =
     bind_py (adjusted_rand_score sk yt yp) (\<lambda>ars.
     bind_py (purity_score yt yp) (\<lambda>pur.
     bind_py (case X of None \<Rightarrow> Inl ValueError | Some x \<Rightarrow> davies_bouldin_score sk x yp) (\<lambda>db.
       let d = AList.update ''db'' db (AList.update ''purity'' pur (AList.update ''ars'' ars []))
       in bind_py (f_measure_step sk yt yp d) (\<lambda>(d', out).
          bind_py (silhouette_step sk yp X alg d') (\<lambda>d''. Inr (d'', out))))))"

section \<open>Lemmas\<close>

definition base_dict :: "real \<Rightarrow> real \<Rightarrow> real \<Rightarrow> metrics_dict" where
  "base_dict ars pur db = [(''ars'', ars), (''purity'', pur), (''db'', db)]"

lemma get_metrics_Inr:
  assumes "get_metrics sk yt yp X alg = Inr (d, out)"
  obtains ars pur x db d1 where
    "adjusted_rand_score sk yt yp = Inr ars" and "purity_score yt yp = Inr pur"
    and "X = Some x" and "davies_bouldin_score sk x yp = Inr db"
    and "f_measure_step sk yt yp (base_dict ars pur db) = Inr (d1, out)"
    and "silhouette_step sk yp X alg d1 = Inr d"
  using assms
  by (auto simp: get_metrics_def base_dict_def bind_py_eq_Inr split: option.splits prod.splits)

lemma f_measure_step_Inr:
  assumes "f_measure_step sk yt yp d = Inr (d1, out)" and "''f-measure'' \<notin> set (map fst d)"
  shows "(if 2 \<le> n_classes yt then
            \<exists>r f. rename_labels yt yp = Inr r \<and>
              f1_score sk yt r (if 2 < n_classes yt then Micro else Binary) = Inr f \<and>
              d1 = d @ [(''f-measure'', f)] \<and> out = []
          else d1 = d \<and> out = [''n_classes must be greater than 1''])"
  using assms
  by (auto simp: f_measure_step_def bind_py_eq_Inr update_new_key split: if_splits)

lemma silhouette_step_Inr:
  assumes "silhouette_step sk yp X alg d = Inr d1" and "''silhouette'' \<notin> set (map fst d)"
  shows "(if alg \<noteq> None \<and> X \<noteq> None then
            \<exists>a x s. alg = Some a \<and> X = Some x \<and>
              silhouette_score sk x yp (silhouette_metric a) = Inr s \<and>
              d1 = d @ [(''silhouette'', s)]
          else d1 = d)"
  using assms
  by (auto simp: silhouette_step_def bind_py_eq_Inr update_new_key split: option.splits)

section \<open>Properties of get_metrics\<close>

text \<open>
  C17. The keys of the dict \<open>get_metrics\<close> returns, in insertion order: always
  \<open>ars\<close>, \<open>purity\<close> and \<open>db\<close>; \<open>f-measure\<close> exactly when there are at least
  two true categories; \<open>silhouette\<close> exactly when an algorithm name is given.
\<close>

theorem get_metrics_keys:
  assumes "get_metrics sk yt yp X alg = Inr (d, out)"
  shows "map fst d = [''ars'', ''purity'', ''db''] @
           (if 2 \<le> n_classes yt then [''f-measure''] else []) @
           (if alg \<noteq> None then [''silhouette''] else [])"
proof -
  obtain ars pur x db d1 where x: "X = Some x"
    and f: "f_measure_step sk yt yp (base_dict ars pur db) = Inr (d1, out)"
    and s: "silhouette_step sk yp X alg d1 = Inr d"
    using assms by (rule get_metrics_Inr)
  have k1: "map fst d1 = [''ars'', ''purity'', ''db''] @
           (if 2 \<le> n_classes yt then [''f-measure''] else [])"
    using f_measure_step_Inr [OF f] by (auto simp: base_dict_def split: if_splits)
  then have "''silhouette'' \<notin> set (map fst d1)" by auto
  then show ?thesis
    using silhouette_step_Inr [OF s] k1 x by (auto split: if_splits)
qed

text \<open>
  C18. \<open>get_metrics\<close> never returns without a feature matrix: the
  Davies-Bouldin score is computed unconditionally, so \<open>X = None\<close> always ends
  in an exception, although the signature marks \<open>X\<close> optional and the
  silhouette guard tests \<open>X is not None\<close>.
\<close>

theorem get_metrics_requires_X:
  "\<exists>e. get_metrics sk yt yp None alg = Inl e"
  by (cases "adjusted_rand_score sk yt yp"; cases "purity_score yt yp")
     (simp_all add: get_metrics_def)

text \<open>
  C19. When at least two true categories exist, the f-measure stored is the F1
  score of the true labels against the output of \<open>rename_labels\<close>, averaged
  \<open>micro\<close> for more than two categories and \<open>binary\<close> for exactly two.
\<close>

theorem get_metrics_f_measure:
  assumes "get_metrics sk yt yp X alg = Inr (d, out)" and "2 \<le> n_classes yt"
  shows "\<exists>r f. rename_labels yt yp = Inr r \<and>
           f1_score sk yt r (if 2 < n_classes yt then Micro else Binary) = Inr f \<and>
           map_of d ''f-measure'' = Some f"
proof -
  obtain ars pur x db d1 where f: "f_measure_step sk yt yp (base_dict ars pur db) = Inr (d1, out)"
    and s: "silhouette_step sk yp X alg d1 = Inr d"
    using assms(1) by (rule get_metrics_Inr)
  obtain r fm where r: "rename_labels yt yp = Inr r"
    and fm: "f1_score sk yt r (if 2 < n_classes yt then Micro else Binary) = Inr fm"
    and d1: "d1 = base_dict ars pur db @ [(''f-measure'', fm)]"
    using f_measure_step_Inr [OF f] assms(2) by (auto simp: base_dict_def)
  have "map_of d ''f-measure'' = Some fm"
    using silhouette_step_Inr [OF s] d1 by (auto simp: base_dict_def split: if_splits)
  with r fm show ?thesis by blast
qed

text \<open>
  C20. With an algorithm name, the stored silhouette is scikit-learn's score
  under the \<open>manhattan\<close> metric for \<open>kproto\<close> and \<open>kmodes\<close> and under
  \<open>euclidean\<close> for every other name.
\<close>

theorem get_metrics_silhouette_metric:
  assumes "get_metrics sk yt yp X (Some a) = Inr (d, out)"
  shows "\<exists>x s. X = Some x \<and>
           silhouette_score sk x yp
             (if a = ''kproto'' \<or> a = ''kmodes'' then ''manhattan'' else ''euclidean'') = Inr s \<and>
           map_of d ''silhouette'' = Some s"
proof -
  obtain ars pur x db d1 where x: "X = Some x"
    and f: "f_measure_step sk yt yp (base_dict ars pur db) = Inr (d1, out)"
    and s: "silhouette_step sk yp X (Some a) d1 = Inr d"
    using assms by (rule get_metrics_Inr)
  have new: "''silhouette'' \<notin> set (map fst d1)"
    using f_measure_step_Inr [OF f] by (auto simp: base_dict_def split: if_splits)
  obtain sv where sv: "silhouette_score sk x yp (silhouette_metric a) = Inr sv"
    and d: "d = d1 @ [(''silhouette'', sv)]"
    using silhouette_step_Inr [OF s new] x by auto
  have "map_of d ''silhouette'' = Some sv"
    unfolding d using new by (rule map_of_snoc_new)
  with x sv show ?thesis by (auto simp: silhouette_metric_def)
qed

text \<open>
  C21. The only output \<open>get_metrics\<close> prints is the warning for fewer than two
  true categories, and then the f-measure is left out instead of raising.
\<close>

theorem get_metrics_diagnostic:
  assumes "get_metrics sk yt yp X alg = Inr (d, out)"
  shows "out = (if n_classes yt < 2 then [''n_classes must be greater than 1''] else []) \<and>
         (n_classes yt < 2 \<longrightarrow> map_of d ''f-measure'' = None)"
proof -
  obtain ars pur x db d1 where f: "f_measure_step sk yt yp (base_dict ars pur db) = Inr (d1, out)"
    and s: "silhouette_step sk yp X alg d1 = Inr d"
    using assms by (rule get_metrics_Inr)
  show ?thesis
    using f_measure_step_Inr [OF f] silhouette_step_Inr [OF s]
    by (auto simp: base_dict_def split: if_splits)
qed

section \<open>Concrete runs\<close>

text \<open>
  A fixed stand-in for the scikit-learn scores, distinguishing the two
  silhouette metrics, to run \<open>get_metrics\<close> on concrete labels.
\<close>

definition sk_example :: "unit sk_scores" where
  "sk_example =
     \<lparr>adjusted_rand_score = (\<lambda>yt yp. Inr 1),
      davies_bouldin_score = (\<lambda>x yp. Inr 0),
      f1_score = (\<lambda>yt yr avg. Inr (if yt = yr then 1 else 0)),
      silhouette_score = (\<lambda>x yp m. Inr (if m = ''manhattan'' then 1 / 2 else 1 / 4))\<rparr>"

lemmas metrics_eval = get_metrics_def f_measure_step_def silhouette_step_def
  silhouette_metric_def n_classes_def sk_example_def relabel_eval
  purity_score_def contingency_matrix_def amax_axis0_def pair_count_def

lemma get_metrics_example_kmodes:
  "get_metrics sk_example [0, 0, 1, 1] [5, 5, 9, 9] (Some ()) (Some ''kmodes'') =
   Inr ([(''ars'', 1), (''purity'', 1), (''db'', 0), (''f-measure'', 1), (''silhouette'', 1 / 2)], [])"
  by (simp add: metrics_eval)

lemma get_metrics_example_one_class:
  "get_metrics sk_example [0, 0] [5, 9] (Some ()) None =
   Inr ([(''ars'', 1), (''purity'', 1), (''db'', 0)], [''n_classes must be greater than 1''])"
  by (simp add: metrics_eval)

theorem get_metrics_keys_witness:
  "map fst [(''ars'', 1::real), (''purity'', 1), (''db'', 0), (''f-measure'', 1), (''silhouette'', 1 / 2)] =
   [''ars'', ''purity'', ''db'', ''f-measure'', ''silhouette'']"
  using get_metrics_keys [OF get_metrics_example_kmodes]
  by (simp add: n_classes_def)

theorem get_metrics_f_measure_witness:
  "\<exists>r f. rename_labels [0, 0, 1, 1::int] [5, 5, 9, 9] = Inr r \<and>
     f1_score sk_example [0, 0, 1, 1] r Binary = Inr f \<and> f = 1"
proof -
  have n: "2 \<le> n_classes [0, 0, 1, 1::int]" by (simp add: n_classes_def)
  show ?thesis
    using get_metrics_f_measure [OF get_metrics_example_kmodes n]
    by (simp add: n_classes_def)
qed

theorem get_metrics_silhouette_metric_witness:
  "silhouette_score sk_example () [5, 5, 9, 9] ''manhattan'' = Inr (1 / 2)"
  using get_metrics_silhouette_metric [OF get_metrics_example_kmodes]
  by (simp add: sk_example_def)

theorem get_metrics_diagnostic_witness:
  "[''n_classes must be greater than 1''] =
     (if n_classes [0, 0::int] < 2 then [''n_classes must be greater than 1''] else []) \<and>
   map_of [(''ars'', 1::real), (''purity'', 1), (''db'', 0)] ''f-measure'' = None"
  using get_metrics_diagnostic [OF get_metrics_example_one_class]
  by (simp add: n_classes_def)

end
