(* ===== verification/Clusterer.thy ===== *)
theory Clusterer
  imports Prelude
begin

text \<open>
  The clusterer selector \<open>get_clusterer\<close> (src/.../cluster/metrics.py, lines
  23-48) and the per-k model choice of \<open>elbow\<close> (lines 160-166). An unfitted
  model is a value of \<open>clusterer\<close>, one constructor per class the module
  instantiates, holding the constructor arguments the module passes (the fixed
  keyword arguments of \<open>AgglomerativeClustering\<close>, \<open>compute_full_tree='auto'\<close>,
  \<open>memory=None\<close> and \<open>pooling_func='deprecated'\<close>, are the same for every call
  and left out). The algorithm name is the Python string the code compares,
  and \<open>agglo_params\<close> is \<open>None\<close> or a Python sequence of strings.
\<close>

section \<open>Models and the selector\<close>

datatype clusterer =
    AgglomerativeClustering (affinity: string) (linkage: string) (agg_n_clusters: int)
  | KMeans int int
  | KModes int int
  | FuzzyCMeans int int
  | KPrototypes int "int list" int

text \<open>\<open>n_clusters\<close> as each constructor receives it.\<close>

fun n_clusters_of :: "clusterer \<Rightarrow> int" where
  "n_clusters_of (AgglomerativeClustering a l n) = n"
| "n_clusters_of (KMeans n r) = n"
| "n_clusters_of (KModes n r) = n"
| "n_clusters_of (FuzzyCMeans n r) = n"
| "n_clusters_of (KPrototypes n cf r) = n"

text \<open>
  \<open>agglo_params[0]\<close> on \<open>None\<close> raises \<open>TypeError\<close>; on a sequence shorter
  than two the first failing subscript raises \<open>IndexError\<close>. An algorithm name
  outside the five leaves \<open>clusterer = None\<close> and \<open>metric = ''''\<close>.
\<close>

definition get_clusterer ::
  "int \<Rightarrow> int list \<Rightarrow> string \<Rightarrow> string list option \<Rightarrow> int \<Rightarrow> (clusterer option \<times> string) py_result"
where
  "get_clusterer n_clusters cat_features alg agglo_params random_state =
     (if alg = ''agglo'' then
        (case agglo_params of
           None \<Rightarrow> Inl TypeError
         | Some ps \<Rightarrow>
             if length ps < 2 then Inl IndexError
             else Inr (Some (AgglomerativeClustering (ps ! 0) (ps ! 1) n_clusters), ''euclidean''))
      else if alg = ''kmeans'' then Inr (Some (KMeans n_clusters random_state), ''euclidean'')
      else if alg = ''kmodes'' then Inr (Some (KModes n_clusters random_state), ''manhattan'')
      else if alg = ''fuzzy'' then Inr (Some (FuzzyCMeans n_clusters random_state), ''euclidean'')
      else if alg = ''kproto'' then
        Inr (Some (KPrototypes n_clusters cat_features random_state), ''manhattan'')
      else Inr (None, ''''))"

text \<open>\<open>elbow\<close>'s model for one \<open>k\<close> (lines 161-166).\<close>

definition elbow_model :: "string \<Rightarrow> int \<Rightarrow> int list \<Rightarrow> int \<Rightarrow> clusterer" where
  "elbow_model alg k cat_features random_state =
     (if alg = ''kmeans'' then KMeans k random_state
      else if alg = ''kmodes'' then KMeans k random_state
      else KPrototypes k cat_features random_state)"

definition known_algs :: "string set" where
  "known_algs = {''agglo'', ''kmeans'', ''kmodes'', ''fuzzy'', ''kproto''}"

section \<open>Lemmas\<close>

lemma get_clusterer_Inr_cases:
  assumes "get_clusterer n cf alg ap rs = Inr (c, m)"
  shows "(alg = ''agglo'' \<and> (\<exists>ps. ap = Some ps \<and> 2 \<le> length ps \<and>
            c = Some (AgglomerativeClustering (ps ! 0) (ps ! 1) n)) \<and> m = ''euclidean'')
       \<or> (alg = ''kmeans'' \<and> c = Some (KMeans n rs) \<and> m = ''euclidean'')
       \<or> (alg = ''kmodes'' \<and> c = Some (KModes n rs) \<and> m = ''manhattan'')
       \<or> (alg = ''fuzzy'' \<and> c = Some (FuzzyCMeans n rs) \<and> m = ''euclidean'')
       \<or> (alg = ''kproto'' \<and> c = Some (KPrototypes n cf rs) \<and> m = ''manhattan'')
       \<or> (alg \<notin> known_algs \<and> c = None \<and> m = '''')"
  using assms
  by (auto simp: get_clusterer_def known_algs_def split: if_splits option.splits)

section \<open>Properties of get_clusterer and elbow's choice\<close>

text \<open>
  C12. Whenever \<open>get_clusterer\<close> builds a model, the distance metric it pairs
  with it is \<open>manhattan\<close> exactly for the categorical algorithms \<open>kmodes\<close> and
  \<open>kproto\<close> and \<open>euclidean\<close> otherwise, and the model receives the requested
  number of clusters.
\<close>

theorem get_clusterer_metric_choice:
  assumes "get_clusterer n cf alg ap rs = Inr (Some c, m)"
  shows "m = (if alg = ''kmodes'' \<or> alg = ''kproto'' then ''manhattan'' else ''euclidean'') \<and>
         n_clusters_of c = n"
  using get_clusterer_Inr_cases [OF assms] by auto

theorem get_clusterer_metric_choice_witness:
  "get_clusterer 3 [0, 2] ''kproto'' None 10 = Inr (Some (KPrototypes 3 [0, 2] 10), ''manhattan'') \<and>
   ''manhattan'' = (if ''kproto'' = ''kmodes'' \<or> ''kproto'' = ''kproto'' then ''manhattan'' else ''euclidean'') \<and>
   n_clusters_of (KPrototypes 3 [0, 2] 10) = 3"
proof -
  have g: "get_clusterer 3 [0, 2] ''kproto'' None 10 = Inr (Some (KPrototypes 3 [0, 2] 10), ''manhattan'')"
    by (simp add: get_clusterer_def)
  show ?thesis using get_clusterer_metric_choice [OF g] g by simp
qed

text \<open>
  C13. For the agglomerative algorithm the metric is \<open>euclidean\<close> whatever
  affinity is configured: with \<open>agglo_params = (''cosine'', linkage)\<close> the
  model uses cosine affinity but the returned metric is still \<open>euclidean\<close>.
\<close>

theorem get_clusterer_agglo_ignores_affinity:
  "get_clusterer n cf ''agglo'' (Some [aff, lnk]) rs =
     Inr (Some (AgglomerativeClustering aff lnk n), ''euclidean'')"
  by (simp add: get_clusterer_def)

text \<open>
  C14. An algorithm name outside the five supported ones is not rejected:
  \<open>get_clusterer\<close> silently returns no model and the empty metric name.
\<close>

theorem get_clusterer_unknown_alg:
  assumes "alg \<notin> known_algs"
  shows "get_clusterer n cf alg ap rs = Inr (None, '''')"
  using assms by (auto simp: get_clusterer_def known_algs_def)

theorem get_clusterer_unknown_alg_witness:
  "''dbscan'' \<notin> known_algs \<and> get_clusterer 3 [] ''dbscan'' None 10 = Inr (None, '''')"
proof -
  have a: "''dbscan'' \<notin> known_algs" by (simp add: known_algs_def)
  show ?thesis using get_clusterer_unknown_alg [OF a] a by simp
qed

text \<open>
  C15. For \<open>alg = ''agglo''\<close> the parameters are not validated: missing
  parameters raise \<open>TypeError\<close> (subscripting \<open>None\<close>) and fewer than two
  raise \<open>IndexError\<close>.
\<close>

theorem get_clusterer_agglo_param_errors:
  "get_clusterer n cf ''agglo'' None rs = Inl TypeError \<and>
   (length ps < 2 \<longrightarrow> get_clusterer n cf ''agglo'' (Some ps) rs = Inl IndexError)"
  by (simp add: get_clusterer_def)

theorem get_clusterer_agglo_param_errors_witness:
  "get_clusterer 2 [] ''agglo'' None 10 = Inl TypeError \<and>
   get_clusterer 2 [] ''agglo'' (Some [''cosine'']) 10 = Inl IndexError"
  using get_clusterer_agglo_param_errors [of 2 "[]" 10 "[''cosine'']"] by simp

text \<open>
  C16. \<open>elbow\<close> and \<open>get_clusterer\<close> disagree on the model for \<open>kmodes\<close>:
  \<open>elbow\<close> fits a \<open>KMeans\<close> model where \<open>get_clusterer\<close> builds \<open>KModes\<close>, and
  every name other than \<open>kmeans\<close> and \<open>kmodes\<close> (\<open>fuzzy\<close>, \<open>agglo\<close>, or an
  unknown one) silently becomes \<open>KPrototypes\<close>.
\<close>

theorem elbow_model_kmodes_is_kmeans:
  "elbow_model ''kmodes'' k cf rs = KMeans k rs \<and>
   get_clusterer k cf ''kmodes'' ap rs = Inr (Some (KModes k rs), ''manhattan'') \<and>
   (alg \<noteq> ''kmeans'' \<longrightarrow> alg \<noteq> ''kmodes'' \<longrightarrow> elbow_model alg k cf rs = KPrototypes k cf rs)"
  by (simp add: elbow_model_def get_clusterer_def)

theorem elbow_model_kmodes_is_kmeans_witness:
  "elbow_model ''kmodes'' 3 [] 42 = KMeans 3 42 \<and>
   get_clusterer 3 [] ''kmodes'' None 42 = Inr (Some (KModes 3 42), ''manhattan'') \<and>
   elbow_model ''fuzzy'' 3 [] 42 = KPrototypes 3 [] 42"
  using elbow_model_kmodes_is_kmeans [of 3 "[]" 42 None "''fuzzy''"] by simp

end
