(* ===== verification/Plots.thy ===== *)
theory Plots
  imports Clusterer Complex_Main
begin

text \<open>
  The plotting helpers \<open>silhouette\<close> (src/.../cluster/metrics.py, lines 51-151)
  and \<open>elbow\<close> (lines 154-177). Fitting and the silhouette scores are library
  calls and enter through the interface record \<open>plot_api\<close>; a fitted model is
  the record \<open>fitted\<close> of the attributes the code reads (\<open>labels\<close>, or
  \<open>labels_\<close> for scikit-learn's agglomerative model, \<open>centroids\<close>,
  \<open>inertia\<close>). What each iteration of \<open>silhouette\<close> computes for its figure
  is the record \<open>sil_frame\<close>: the upper y-limit, the average score, the
  sorted per-sample scores of each cluster (the bars), the y-band of each
  cluster, and whether centroids are drawn. \<open>elbow\<close> returns \<open>None\<close>; what
  it plots is the record \<open>elbow_figure\<close>. Colours, axis texts and
  \<open>plt.show()\<close> are I/O and are not modelled.
\<close>

section \<open>Interface and state\<close>

record fitted =
  fit_labels :: "int labels"
  fit_centroids :: "real list list"
  fit_inertia :: real

record 'x plot_api =
  fit :: "clusterer \<Rightarrow> 'x \<Rightarrow> fitted py_result"
  n_samples :: "'x \<Rightarrow> nat"
  sil_score :: "'x \<Rightarrow> int labels \<Rightarrow> string \<Rightarrow> real py_result"
  sil_samples :: "'x \<Rightarrow> int labels \<Rightarrow> string \<Rightarrow> real list py_result"

record sil_frame =
  frame_k :: int
  ylim_top :: int
  sil_avg :: real
  sample_bars :: "(int \<times> real list) list"
  bands :: "(int \<times> int \<times> int) list"
  centers_drawn :: bool

record elbow_figure =
  plot_ks :: "int list"
  plot_inertias :: "real list"
  plot_title :: string
  plot_xticks :: "int list"

section \<open>silhouette\<close>

text \<open>
  Lines 93-114: \<open>y_lower\<close> starts at 10; cluster \<open>i\<close> occupies
  \<open>[y_lower, y_lower + size_cluster_i)\<close> and the next band starts 10 above it.
  \<open>size_cluster_i\<close> is the length of the masked selection, which is the number
  of points labelled \<open>i\<close> once the mask has passed numpy's length check
  (\<open>length_mask_vals\<close>).
\<close>

fun band_layout :: "int labels \<Rightarrow> int list \<Rightarrow> int \<Rightarrow> (int \<times> int \<times> int) list" where
  "band_layout labels [] y_lower = []"
| "band_layout labels (i # ids) y_lower =
     (let size_cluster_i = int (count_list labels i);
          y_upper = y_lower + size_cluster_i
      in (i, y_lower, y_upper) # band_layout labels ids (y_upper + 10))"

text \<open>
  One iteration of the loop over \<open>range_clusters\<close> (lines 59-114). Calling
  \<open>fit\<close> on the \<open>None\<close> an unknown algorithm yields raises
  \<open>AttributeError\<close>. \<open>silhouette_samples(X, cluster_labels)\<close> (line 91) is
  called without a metric, so it uses scikit-learn's default \<open>euclidean\<close>.
  The boolean mask \<open>cluster_labels == i\<close> indexes the per-sample scores;
  numpy raises \<open>IndexError\<close> when their lengths differ. The sorted selection of
  cluster \<open>i\<close> is the bar drawn by \<open>fill_betweenx\<close>.
\<close>

definition silhouette_frame ::
  "'x plot_api \<Rightarrow> 'x \<Rightarrow> int list \<Rightarrow> string \<Rightarrow> string list option \<Rightarrow> int \<Rightarrow> int \<Rightarrow> sil_frame py_result"
where
  "silhouette_frame api X cat_features alg agglo_params random_state n_clusters =
     bind_py (get_clusterer n_clusters cat_features alg agglo_params random_state) (\<lambda>(clusterer, metric).
     case clusterer of
       None \<Rightarrow> Inl AttributeError
     | Some model \<Rightarrow>
       bind_py (fit api model X) (\<lambda>fm.
       let cluster_labels = fit_labels fm in
       bind_py (sil_score api X cluster_labels metric) (\<lambda>silhouette_avg.
       bind_py (sil_samples api X cluster_labels ''euclidean'') (\<lambda>sample_silhouette_values.
       if length sample_silhouette_values \<noteq> length cluster_labels then Inl IndexError
       else
         Inr \<lparr>frame_k = n_clusters,
              ylim_top = int (n_samples api X) + (n_clusters + 1) * 10,
              sil_avg = silhouette_avg,
              sample_bars = map (\<lambda>i. (i, sort (mask_vals cluster_labels sample_silhouette_values i)))
                              [0..n_clusters - 1],
              bands = band_layout cluster_labels [0..n_clusters - 1] 10,
              centers_drawn = (alg \<noteq> ''agglo'')\<rparr>))))"

fun silhouette_run ::
  "'x plot_api \<Rightarrow> 'x \<Rightarrow> int list \<Rightarrow> string \<Rightarrow> string list option \<Rightarrow> int \<Rightarrow> int list \<Rightarrow> sil_frame list py_result"
where
  "silhouette_run api X cf alg ap rs [] = Inr []"
| "silhouette_run api X cf alg ap rs (k # ks) =
     bind_py (silhouette_frame api X cf alg ap rs k) (\<lambda>fr.
     bind_py (silhouette_run api X cf alg ap rs ks) (\<lambda>frs. Inr (fr # frs)))"

section \<open>elbow\<close>

text \<open>Lines 157-170: one fit per \<open>k\<close>, in order, the inertias appended.\<close>

fun elbow_inertias ::
  "'x plot_api \<Rightarrow> 'x \<Rightarrow> string \<Rightarrow> int list \<Rightarrow> int \<Rightarrow> int list \<Rightarrow> real list py_result"
where
  "elbow_inertias api X alg cf rs [] = Inr []"
| "elbow_inertias api X alg cf rs (k # ks) =
     bind_py (fit api (elbow_model alg k cf rs) X) (\<lambda>model.
     bind_py (elbow_inertias api X alg cf rs ks) (\<lambda>inertias. Inr (fit_inertia model # inertias)))"

text \<open>
  Lines 154-177: the loop, then the figure: \<open>ks\<close> against the inertias, the
  algorithm name as title, \<open>ks\<close> as x-ticks. The figure is the observable
  result of \<open>elbow\<close>, which returns \<open>None\<close>.
\<close>

definition elbow ::
  "'x plot_api \<Rightarrow> 'x \<Rightarrow> int list \<Rightarrow> string \<Rightarrow> int list \<Rightarrow> int \<Rightarrow> elbow_figure py_result"
where
  "elbow api X range_clusters alg cat_features random_state =
     (let ks = range_clusters in
      bind_py (elbow_inertias api X alg cat_features random_state ks) (\<lambda>inertias.
      Inr \<lparr>plot_ks = ks, plot_inertias = inertias, plot_title = alg, plot_xticks = ks\<rparr>))"

section \<open>Lemmas\<close>

lemma length_band_layout [simp]: "length (band_layout labels ids y) = length ids"
  by (induction ids arbitrary: y) (simp_all add: Let_def)

lemma sum_count_le_length:
  "finite A \<Longrightarrow> (\<Sum>j\<in>A. count_list xs j) \<le> length xs"
proof -
  assume A: "finite A"
  have "(\<Sum>j\<in>A. count_list xs j) \<le> (\<Sum>j\<in>A \<union> set xs. count_list xs j)"
    using A by (intro sum_mono2) auto
  also have "\<dots> = length xs"
    using A by (intro sum_count_set) auto
  finally show ?thesis .
qed

lemma band_layout_bounds:
  assumes "(i, lo, hi) \<in> set (band_layout labels ids y)" and "distinct ids"
  shows "y \<le> lo \<and> lo \<le> hi \<and>
         hi \<le> y + int (\<Sum>j\<in>set ids. count_list labels j) + 10 * (int (length ids) - 1)"
  using assms
proof (induction ids arbitrary: y)
  case Nil
  then show ?case by simp
next
  case (Cons c cs)
  let ?y' = "y + int (count_list labels c) + 10"
  have sum: "(\<Sum>j\<in>set (c # cs). count_list labels j)
      = count_list labels c + (\<Sum>j\<in>set cs. count_list labels j)"
    using Cons.prems(2) by simp
  show ?case
  proof (cases "(i, lo, hi) = (c, y, y + int (count_list labels c))")
    case True
    have h: "int (count_list labels c) \<le> int (\<Sum>j\<in>set (c # cs). count_list labels j)"
      using sum by (simp del: of_nat_sum)
    show ?thesis using True h by (simp del: of_nat_sum)
  next
    case False
    then have "(i, lo, hi) \<in> set (band_layout labels cs ?y')"
      using Cons.prems(1) by (auto simp: Let_def)
    then have ih: "?y' \<le> lo \<and> lo \<le> hi \<and>
        hi \<le> ?y' + int (\<Sum>j\<in>set cs. count_list labels j) + 10 * (int (length cs) - 1)"
      using Cons.prems(2) by (intro Cons.IH) simp_all
    have hi: "hi \<le> y + (int (count_list labels c) + int (\<Sum>j\<in>set cs. count_list labels j))
                   + 10 * (int (length (c # cs)) - 1)"
      using ih by simp
    have "int (\<Sum>j\<in>set (c # cs). count_list labels j)
        = int (count_list labels c) + int (\<Sum>j\<in>set cs. count_list labels j)"
      using sum by (simp del: of_nat_sum)
    with ih hi show ?thesis by (simp del: of_nat_sum)
  qed
qed

lemma band_layout_upto:
  assumes "(i, lo, hi) \<in> set (band_layout labels [0..n - 1] 10)"
  shows "10 \<le> lo \<and> lo \<le> hi \<and> hi + 10 \<le> int (length labels) + (n + 1) * 10"
proof -
  have b: "10 \<le> lo \<and> lo \<le> hi \<and>
      hi \<le> 10 + int (\<Sum>j\<in>set [0..n - 1]. count_list labels j) + 10 * (int (length [0..n - 1]) - 1)"
    using band_layout_bounds [OF assms] by simp
  have "(\<Sum>j\<in>set [0..n - 1]. count_list labels j) \<le> length labels"
    by (rule sum_count_le_length) simp
  then have s: "int (\<Sum>j\<in>set [0..n - 1]. count_list labels j) \<le> int (length labels)"
    by (simp only: of_nat_le_iff)
  have len: "int (length [0..n - 1]) \<le> n"
    using assms by (cases "n \<le> 0") auto
  from b have "hi \<le> 10 + int (\<Sum>j\<in>set [0..n - 1]. count_list labels j) + 10 * (int (length [0..n - 1]) - 1)"
    by (simp del: of_nat_sum)
  with s len have "hi \<le> int (length labels) + 10 * n" by (simp add: algebra_simps)
  with b show ?thesis by (simp add: algebra_simps)
qed

lemma band_layout_nth:
  assumes "j < length ids"
  shows "(\<exists>lo. band_layout labels ids y ! j = (ids ! j, lo, lo + int (count_list labels (ids ! j)))) \<and>
         (Suc j < length ids \<longrightarrow>
            fst (snd (band_layout labels ids y ! Suc j)) = snd (snd (band_layout labels ids y ! j)) + 10)"
  using assms
proof (induction ids arbitrary: y j)
  case Nil
  then show ?case by simp
next
  case (Cons c cs)
  show ?case
  proof (cases j)
    case 0
    then show ?thesis by (cases cs) (simp_all add: Let_def)
  next
    case (Suc j')
    with Cons.prems Cons.IH [of j' "y + int (count_list labels c) + 10"] show ?thesis
      by (simp add: Let_def)
  qed
qed

lemma silhouette_frame_Inr:
  assumes "silhouette_frame api X cf alg ap rs n = Inr fr"
  obtains model metric fm vals where
    "get_clusterer n cf alg ap rs = Inr (Some model, metric)"
    and "fit api model X = Inr fm"
    and "sil_score api X (fit_labels fm) metric = Inr (sil_avg fr)"
    and "sil_samples api X (fit_labels fm) ''euclidean'' = Inr vals"
    and "length vals = length (fit_labels fm)"
    and "ylim_top fr = int (n_samples api X) + (n + 1) * 10"
    and "sample_bars fr = map (\<lambda>i. (i, sort (mask_vals (fit_labels fm) vals i))) [0..n - 1]"
    and "bands fr = band_layout (fit_labels fm) [0..n - 1] 10"
  using assms
  by (auto simp: silhouette_frame_def bind_py_eq_Inr Let_def split: option.splits prod.splits if_splits)

lemma bind_py_Inr_comp_Inl:
  "bind_py r (\<lambda>x. Inr (f x)) = Inl e \<longleftrightarrow> r = Inl e"
  by (cases r) simp_all

lemma elbow_inertias_first_error:
  "elbow_inertias api X alg cf rs ks = Inl e \<longleftrightarrow>
     (\<exists>pre k post. ks = pre @ k # post \<and>
        (\<forall>k'\<in>set pre. \<exists>fm. fit api (elbow_model alg k' cf rs) X = Inr fm) \<and>
        fit api (elbow_model alg k cf rs) X = Inl e)"
proof (induction ks)
  case Nil
  then show ?case by simp
next
  case (Cons k ks)
  show ?case
  proof (cases "fit api (elbow_model alg k cf rs) X")
    case (Inl e')
    have "e' = e" if "\<exists>pre k' post. k # ks = pre @ k' # post \<and>
        (\<forall>k''\<in>set pre. \<exists>fm. fit api (elbow_model alg k'' cf rs) X = Inr fm) \<and>
        fit api (elbow_model alg k' cf rs) X = Inl e"
      using that Inl by (auto simp: Cons_eq_append_conv)
    moreover have "\<exists>pre k' post. k # ks = pre @ k' # post \<and>
        (\<forall>k''\<in>set pre. \<exists>fm. fit api (elbow_model alg k'' cf rs) X = Inr fm) \<and>
        fit api (elbow_model alg k' cf rs) X = Inl e'"
      using Inl by (intro exI [of _ "[]"]) simp
    ultimately show ?thesis using Inl by auto
  next
    case (Inr fm)
    then show ?thesis
      by (auto simp: Cons.IH bind_py_Inr_comp_Inl Cons_eq_append_conv) (metis set_ConsD)+
  qed
qed

lemma length_elbow_inertias:
  "elbow_inertias api X alg cf rs ks = Inr inertias \<Longrightarrow> length inertias = length ks"
  by (induction ks arbitrary: inertias) (auto simp: bind_py_eq_Inr)

section \<open>Properties of silhouette and elbow\<close>

definition api_example :: "unit plot_api" where
  "api_example =
     \<lparr>fit = (\<lambda>m X. if 3 < n_clusters_of m then Inl ValueError
                   else Inr \<lparr>fit_labels = [0, 1, 1], fit_centroids = [[0], [1]],
                             fit_inertia = real_of_int (n_clusters_of m)\<rparr>),
      n_samples = (\<lambda>X. 3),
      sil_score = (\<lambda>X l m. Inr (if m = ''manhattan'' then 1 / 2 else 1 / 4)),
      sil_samples = (\<lambda>X l m. Inr (if m = ''euclidean'' then [1 / 4, 1 / 2, 3 / 4] else [0, 0, 0]))\<rparr>"

lemma silhouette_frame_example:
  "silhouette_frame api_example () [] ''kmodes'' None 10 2 =
   Inr \<lparr>frame_k = 2, ylim_top = 33, sil_avg = 1 / 2,
        sample_bars = [(0, [1 / 4]), (1, [1 / 2, 3 / 4])],
        bands = [(0, 10, 11), (1, 21, 23)], centers_drawn = True\<rparr>"
  by (simp add: silhouette_frame_def api_example_def get_clusterer_def upto.simps mask_vals_def)

text \<open>
  C22. If the fitted model labels at most \<open>len(X)\<close> points, every band of the
  silhouette plot lies strictly inside the y-limits \<open>[0, len(X) + (n+1)*10]\<close>
  that the code sets, with a gap of at least 10 at the top.
\<close>

theorem silhouette_bands_within_ylim:
  assumes "silhouette_frame api X cf alg ap rs n = Inr fr"
    and "\<forall>m fm. fit api m X = Inr fm \<longrightarrow> length (fit_labels fm) \<le> n_samples api X"
    and "(i, lo, hi) \<in> set (bands fr)"
  shows "0 < lo \<and> lo \<le> hi \<and> hi + 10 \<le> ylim_top fr"
proof -
  obtain model metric fm where f: "fit api model X = Inr fm"
    and y: "ylim_top fr = int (n_samples api X) + (n + 1) * 10"
    and b: "bands fr = band_layout (fit_labels fm) [0..n - 1] 10"
    using assms(1) by (rule silhouette_frame_Inr)
  have "10 \<le> lo \<and> lo \<le> hi \<and> hi + 10 \<le> int (length (fit_labels fm)) + (n + 1) * 10"
    using assms(3) b by (intro band_layout_upto) simp
  moreover have "int (length (fit_labels fm)) \<le> int (n_samples api X)"
    using assms(2) f by simp
  ultimately show ?thesis using y by linarith
qed

theorem silhouette_bands_within_ylim_witness:
  "\<exists>fr. silhouette_frame api_example () [] ''kmodes'' None 10 2 = Inr fr \<and>
        (1, 21, 23) \<in> set (bands fr) \<and> 0 < (21::int) \<and> (21::int) \<le> 23 \<and> 23 + 10 \<le> ylim_top fr"
proof -
  have c: "\<forall>m fm. fit api_example m () = Inr fm \<longrightarrow>
      length (fit_labels fm) \<le> n_samples api_example ()"
    by (simp add: api_example_def)
  let ?fr = "\<lparr>frame_k = 2, ylim_top = 33, sil_avg = 1 / 2,
        sample_bars = [(0, [1 / 4]), (1, [1 / 2, 3 / 4])],
        bands = [(0, 10, 11), (1, 21, 23)], centers_drawn = True\<rparr>"
  have m: "(1, 21, 23) \<in> set (bands ?fr)" by simp
  have "0 < (21::int) \<and> (21::int) \<le> 23 \<and> 23 + 10 \<le> ylim_top ?fr"
    using silhouette_bands_within_ylim [OF silhouette_frame_example c m] .
  with silhouette_frame_example m show ?thesis by blast
qed

text \<open>
  C23. The band of cluster \<open>j\<close> (for \<open>0 \<le> j < n_clusters\<close>) is the \<open>j\<close>-th
  one, its height is the number of points labelled \<open>j\<close>, and the next band
  starts 10 above it; labels outside \<open>range(n_clusters)\<close> get no band.
\<close>

theorem silhouette_band_layout:
  assumes "0 \<le> j" and "j < n"
  shows "\<exists>lo. band_layout labels [0..n - 1] 10 ! nat j = (j, lo, lo + int (count_list labels j)) \<and>
           (j + 1 < n \<longrightarrow>
              fst (snd (band_layout labels [0..n - 1] 10 ! nat (j + 1))) =
              lo + int (count_list labels j) + 10)"
proof -
  have len: "nat j < length [0..n - 1]" using assms by simp
  have nj: "[0..n - 1] ! nat j = j" using assms by (simp add: nth_upto)
  have sj: "nat (j + 1) = Suc (nat j)" using assms(1) by simp
  show ?thesis
    using band_layout_nth [OF len, of labels 10] nj sj assms by auto
qed

theorem silhouette_band_layout_witness:
  "band_layout [0, 1, 1] [0..2 - 1] 10 ! nat 0 = (0, 10, 10 + int (count_list [0, 1, 1::int] 0))"
proof -
  have "\<exists>lo. band_layout [0, 1, 1] [0..2 - 1] 10 ! nat 0 = (0, lo, lo + int (count_list [0, 1, 1::int] 0)) \<and>
         (0 + 1 < (2::int) \<longrightarrow> fst (snd (band_layout [0, 1, 1] [0..2 - 1] 10 ! nat (0 + 1))) =
            lo + int (count_list [0, 1, 1::int] 0) + 10)"
    by (rule silhouette_band_layout) simp_all
  then show ?thesis by (simp add: upto.simps)
qed

text \<open>
  C24. For the categorical algorithms the two halves of one silhouette figure
  come from different metrics: the average line is \<open>silhouette_score\<close> under
  \<open>manhattan\<close>, while the bars are the sorted per-cluster selections of
  \<open>silhouette_samples\<close> computed under its default \<open>euclidean\<close>, for the same
  cluster labels.
\<close>

theorem silhouette_samples_metric_mismatch:
  assumes "silhouette_frame api X cf alg ap rs n = Inr fr"
    and "alg = ''kmodes'' \<or> alg = ''kproto''"
  shows "\<exists>labels vals. sil_score api X labels ''manhattan'' = Inr (sil_avg fr) \<and>
           sil_samples api X labels ''euclidean'' = Inr vals \<and>
           sample_bars fr = map (\<lambda>i. (i, sort (mask_vals labels vals i))) [0..n - 1]"
proof -
  obtain model metric fm vals where g: "get_clusterer n cf alg ap rs = Inr (Some model, metric)"
    and "fit api model X = Inr fm"
    and "sil_score api X (fit_labels fm) metric = Inr (sil_avg fr)"
    and "sil_samples api X (fit_labels fm) ''euclidean'' = Inr vals"
    and "length vals = length (fit_labels fm)"
    and "ylim_top fr = int (n_samples api X) + (n + 1) * 10"
    and "sample_bars fr = map (\<lambda>i. (i, sort (mask_vals (fit_labels fm) vals i))) [0..n - 1]"
    and "bands fr = band_layout (fit_labels fm) [0..n - 1] 10"
    using assms(1) by (rule silhouette_frame_Inr)
  moreover have "metric = ''manhattan''"
    using get_clusterer_Inr_cases [OF g] assms(2) by auto
  ultimately show ?thesis by blast
qed

theorem silhouette_samples_metric_mismatch_witness:
  "\<exists>fr. silhouette_frame api_example () [] ''kmodes'' None 10 2 = Inr fr \<and>
     (\<exists>labels vals. sil_score api_example () labels ''manhattan'' = Inr (sil_avg fr) \<and>
        sil_samples api_example () labels ''euclidean'' = Inr vals \<and>
        sample_bars fr = map (\<lambda>i. (i, sort (mask_vals labels vals i))) [0..2 - 1])"
  using silhouette_samples_metric_mismatch [OF silhouette_frame_example disjI1 [OF refl]]
    silhouette_frame_example by blast

text \<open>
  C25. \<open>silhouette\<close> with an unsupported algorithm name fails on the first
  cluster count with \<open>AttributeError\<close> (\<open>None.fit\<close>), the consequence of
  \<open>get_clusterer\<close> returning no model.
\<close>

theorem silhouette_unknown_alg_error:
  assumes "alg \<notin> known_algs" and "ks \<noteq> []"
  shows "silhouette_run api X cf alg ap rs ks = Inl AttributeError"
proof -
  obtain k ks' where ks: "ks = k # ks'" using assms(2) by (cases ks) auto
  have "get_clusterer k cf alg ap rs = Inr (None, [])"
    using assms(1) by (auto simp: get_clusterer_def known_algs_def)
  then show ?thesis by (simp add: ks silhouette_frame_def)
qed

theorem silhouette_unknown_alg_error_witness:
  "silhouette_run api_example () [] ''dbscan'' None 10 [2, 3] = Inl AttributeError"
  by (rule silhouette_unknown_alg_error) (simp_all add: known_algs_def)

text \<open>
  C26. \<open>elbow\<close> stops at the first cluster count whose fit fails and raises
  that fit's error; it fails exactly when some fit fails, all earlier fits
  having succeeded, so no figure is drawn for a partial curve.
\<close>

theorem elbow_first_fit_error:
  "elbow api X ks alg cf rs = Inl e \<longleftrightarrow>
     (\<exists>pre k post. ks = pre @ k # post \<and>
        (\<forall>k'\<in>set pre. \<exists>fm. fit api (elbow_model alg k' cf rs) X = Inr fm) \<and>
        fit api (elbow_model alg k cf rs) X = Inl e)"
  unfolding elbow_def Let_def bind_py_Inr_comp_Inl by (rule elbow_inertias_first_error)

theorem elbow_first_fit_error_witness:
  "elbow api_example () [2, 3, 4, 5] ''kmeans'' [] 42 = Inl ValueError"
proof -
  have "\<exists>pre k post. [2, 3, 4, 5] = pre @ k # post \<and>
      (\<forall>k'\<in>set pre. \<exists>fm. fit api_example (elbow_model ''kmeans'' k' [] 42) () = Inr fm) \<and>
      fit api_example (elbow_model ''kmeans'' k [] 42) () = Inl ValueError"
    by (rule exI [of _ "[2, 3]"], rule exI [of _ 4], rule exI [of _ "[5]"])
      (simp add: api_example_def elbow_model_def)
  then show ?thesis
    using elbow_first_fit_error [of api_example "()" "[2, 3, 4, 5]" "''kmeans''" "[]" 42 ValueError]
    by blast
qed

end
