(* ===== verification/Spec2Isabelle.thy ===== *)
theory Spec2Isabelle
  imports Metrics Plots
begin

text \<open>
  \<^bold>\<open>Clustering metrics of IML_MASTER_UPC, modelled in Isabelle/HOL.\<close>

  The repository's module
  \<open>src/Introduction_to_Machine_Learning/deliverables/iml/cluster/metrics.py\<close>
  layers scoring and plotting helpers over clustering and metric libraries.
  Its parts and how they interact:
  \<^item> \<open>get_clusterer\<close> (lines 23-48) maps an algorithm name to an unfitted model
    and a distance-metric name; \<open>silhouette\<close> (51-151) calls it once per
    cluster count, fits the model and lays out a silhouette plot; \<open>elbow\<close>
    (154-177) chooses its own model per \<open>k\<close>, collects the inertias and
    plots them.
  \<^item> \<open>rename_labels\<close> (180-192) matches true categories to predicted cluster
    ids by a greedy majority vote (with \<open>scipy.stats.mode\<close>) and relabels the
    predictions; \<open>get_metrics\<close> (195-219) computes ARI, purity
    (its local \<open>purity_score\<close>, 196-198), Davies-Bouldin, the F1 score over
    \<open>rename_labels\<close>' output and the silhouette, into a dict.

  \<^bold>\<open>Theories.\<close>
  \<^item> \<open>Prelude\<close>: Python exceptions as the sum \<open>py_error + 'a\<close> with
    propagation \<open>bind_py\<close>; the iteration order of \<open>set(y)\<close> (\<open>py_set_iter\<close>,
    ascending: how CPython iterates a set of small non-negative ints, the
    labels this module receives; strings, negative or large ints iterate in
    another order, which the model does not cover); numpy's boolean
    mask read \<open>mask_vals\<close> and masked write \<open>mask_assign\<close>; shared list lemmas.
  \<^item> \<open>Mode\<close>: \<open>scipy.stats.mode\<close> (library code, modelled from its contract and
    its scan over sorted unique values): \<open>scipy_mode\<close>, proved equal to the
    smallest most frequent value (\<open>scipy_mode_eq_spec\<close>, \<open>scipy_mode_char\<close>).
    It follows scipy releases before 1.11, whose \<open>mode\<close> returns arrays that
    \<open>mode(...)[0][0]\<close> can index; from 1.11 on the result is a scalar and
    \<open>rename_labels\<close> raises on every call, which is not modelled.
  \<^item> \<open>Relabel\<close>: \<open>rename_labels\<close> as its two loops, \<open>build_mapping\<close> (the dict,
    an association list in insertion order, \<open>AList.update\<close> for
    \<open>mapping[cat] = ...\<close>) and \<open>relabel_loop\<close>, over an explicit iteration order
    (\<open>rename_labels_ord\<close>). Lemmas: the dict invariant \<open>mapping_inv\<close> (C1), the
    refinement of both loops by the pointwise inverse lookup \<open>relabel_spec\<close>
    (C2), recovery of a perfect clustering (C3), the majority-vote step (C7),
    \<open>IndexError\<close> when clusters run out (C4) or lengths differ (C6), the shape
    of the result (C5); \<open>rename_labels_order_dependent\<close> shows the result
    depends on the iteration order.
  \<^item> \<open>Purity\<close>: scikit-learn's \<open>contingency_matrix\<close> (from its contract),
    \<open>np.amax(cm, axis=0)\<close> as \<open>amax_axis0\<close> and \<open>purity_score\<close>. Lemmas: refinement
    by the partition-level purity (C8), bounds (C9), invariance under renaming
    of cluster ids (C10), and purity 1 exactly for pure clusterings (C11).
  \<^item> \<open>Clusterer\<close>: the datatype \<open>clusterer\<close> of the models the module builds,
    \<open>get_clusterer\<close> and \<open>elbow_model\<close>. Lemmas C12-C16: the metric table,
    the hardcoded metric for \<open>agglo\<close>, the silent \<open>None\<close> for unknown names, the
    unvalidated \<open>agglo_params\<close>, and \<open>elbow\<close>'s \<open>KMeans\<close> for \<open>kmodes\<close>.
  \<^item> \<open>Metrics\<close>: \<open>get_metrics\<close>, with the scikit-learn scores as the fields of the
    interface record \<open>sk_scores\<close> (any implementation: every lemma holds for
    all of them); the result is the dict as an association list and the printed
    lines. Lemmas C17-C21: the keys, the mandatory \<open>X\<close>, the F1 averaging, the
    silhouette metric, the printed warning.
  \<^item> \<open>Plots\<close>: \<open>silhouette\<close> and \<open>elbow\<close>, with fitting and the silhouette
    scores behind the interface record \<open>plot_api\<close>; one figure of
    \<open>silhouette\<close> is the record \<open>sil_frame\<close> of what the code computes for it
    (y-limit, average score, the sorted per-cluster bars, the band of each
    cluster), and \<open>elbow\<close>'s figure is the record \<open>elbow_figure\<close> (the
    plotted points, title and ticks; the Python function returns \<open>None\<close>).
    Lemmas C22-C26: bands inside the y-limits, band layout, the bars and the
    average taken under different metrics, \<open>AttributeError\<close> for unknown
    names, and \<open>elbow\<close> failing with the first failing fit.
  \<^item> This theory: properties spanning components (C27).

  \<^bold>\<open>Modelling choices.\<close> Labels are Python ints (\<open>int\<close>); scores are \<open>real\<close>
  (the exact values of the floats the code computes). Every loop of the module
  runs over a finite list, so every definition is structural recursion and
  total, and no fuel is needed; errors are values, so every raise of the code
  (and of the numpy, scipy and scikit-learn calls whose failure the code does
  not guard) is a branch of the model. The iteration order of \<open>set(y_true)\<close>
  is a parameter of \<open>rename_labels_ord\<close>; its lemmas hold for every
  duplicate-free order, and \<open>rename_labels\<close> fixes the ascending one.

  \<^bold>\<open>Not modelled.\<close> The clustering algorithms (KMeans, KModes, KPrototypes,
  FuzzyCMeans, AgglomerativeClustering) and the scikit-learn scores are
  external: they are parameters (\<open>plot_api\<close>, \<open>sk_scores\<close>) and nothing is
  assumed of them beyond their types, except where a lemma states a
  hypothesis on them. Matplotlib drawing beyond the data the
  records \<open>sil_frame\<close> and \<open>elbow_figure\<close> hold (colours, axis texts, the
  scatter of \<open>X_pca\<close> and the centroids), the printed silhouette averages and
  \<open>plt.show()\<close> are I/O.
\<close>

section \<open>Properties spanning components\<close>

text \<open>
  C27. A perfect clustering scores perfectly through \<open>get_metrics\<close>: when the
  predictions are an injective renaming of at least two true categories, the
  purity stored is 1 and the f-measure stored is the F1 score of the true
  labels against themselves, because \<open>rename_labels\<close> recovers them exactly.
\<close>

theorem get_metrics_perfect_clustering:
  assumes "inj_on f (set yt)" and "2 \<le> n_classes yt"
    and "get_metrics sk yt (map f yt) X alg = Inr (d, out)"
  shows "map_of d ''purity'' = Some 1 \<and>
         (\<exists>fm. f1_score sk yt yt (if 2 < n_classes yt then Micro else Binary) = Inr fm \<and>
               map_of d ''f-measure'' = Some fm)"
proof -
  have ne: "yt \<noteq> []" using assms(2) by (auto simp: n_classes_def)
  obtain ars pur x db d1 where p: "purity_score yt (map f yt) = Inr pur" and xs: "X = Some x"
    and fs: "f_measure_step sk yt (map f yt) (base_dict ars pur db) = Inr (d1, out)"
    and ss: "silhouette_step sk (map f yt) X alg d1 = Inr d"
    using assms(3) by (rule get_metrics_Inr)
  have pur: "pur = 1"
    using p purity_score_map_inj [OF assms(1) ne] by simp
  have r: "rename_labels yt (map f yt) = Inr yt"
    by (rule rename_labels_map_inj [OF assms(1)])
  obtain fm where fm: "f1_score sk yt yt (if 2 < n_classes yt then Micro else Binary) = Inr fm"
    and d1: "d1 = base_dict ars pur db @ [(''f-measure'', fm)]"
    using f_measure_step_Inr [OF fs] assms(2) r by (auto simp: base_dict_def)
  have d: "d = d1 \<or> (\<exists>s. d = d1 @ [(''silhouette'', s)])"
    using silhouette_step_Inr [OF ss] d1 by (auto simp: base_dict_def split: if_splits)
  then show ?thesis
    using d1 fm pur by (auto simp: base_dict_def)
qed

theorem get_metrics_perfect_clustering_witness:
  "map_of [(''ars'', 1::real), (''purity'', 1), (''db'', 0), (''f-measure'', 1), (''silhouette'', 1 / 2)]
     ''purity'' = Some 1 \<and>
   f1_score sk_example [0, 0, 1, 1] [0, 0, 1, 1] Binary = Inr 1"
proof -
  have inj: "inj_on (\<lambda>x::int. if x = 0 then 5 else (9::int)) (set [0, 0, 1, 1])"
    by (simp add: inj_on_def)
  have n: "2 \<le> n_classes [0, 0, 1, 1::int]" by (simp add: n_classes_def)
  have m: "map (\<lambda>x::int. if x = 0 then 5 else (9::int)) [0, 0, 1, 1] = [5, 5, 9, 9]" by simp
  have g: "get_metrics sk_example [0, 0, 1, 1] (map (\<lambda>x::int. if x = 0 then 5 else (9::int)) [0, 0, 1, 1])
      (Some ()) (Some ''kmodes'') =
    Inr ([(''ars'', 1), (''purity'', 1), (''db'', 0), (''f-measure'', 1), (''silhouette'', 1 / 2)], [])"
    unfolding m by (rule get_metrics_example_kmodes)
  show ?thesis
    using get_metrics_perfect_clustering [OF inj n g] by (auto simp: n_classes_def sk_example_def)
qed

end
